theory Spec2Isabelle
  imports Complex_Main "HOL-Library.Log_Nat" "HOL-Library.Multiset" "HOL-Library.Sublist"
begin

section \<open>Python values and string methods\<close>

text \<open>
  The program (\<^verbatim>\<open>Hello.py\<close>) answers queries over five tables read from CSV files.
  A table cell is a Python value: a \<^verbatim>\<open>str\<close>, a number, or the float \<^verbatim>\<open>nan\<close> that
  pandas stores for an empty field.

  A string is a HOL string whose characters are the code points 0 to 255 of the Python
  string (ASCII and the Latin-1 supplement); a string with a code point above 255 has no
  counterpart here. On these code points, as Python's Unicode tables have it:
  \<^item> the whitespace that \<^verbatim>\<open>strip\<close> removes is \<^verbatim>\<open>\t \n \v \f \r\<close> (9 to 13), the separators
    \<^verbatim>\<open>0x1c\<close> to \<^verbatim>\<open>0x1f\<close> (28 to 31), the space (32), the next-line character \<^verbatim>\<open>0x85\<close> (133)
    and the no-break space \<^verbatim>\<open>0xa0\<close> (160);
  \<^item> the capital letters are \<^verbatim>\<open>A..Z\<close> (65 to 90) and \<^verbatim>\<open>0xc0\<close> to \<^verbatim>\<open>0xde\<close> (192 to 222)
    without the multiplication sign \<^verbatim>\<open>0xd7\<close> (215); \<^verbatim>\<open>lower\<close> adds 32 to each of them and
    leaves every other character as it is;
  \<^item> the small letters with a capital among these code points are \<^verbatim>\<open>a..z\<close> and \<^verbatim>\<open>0xe0\<close> to
    \<^verbatim>\<open>0xfe\<close> (224 to 254) without the division sign \<^verbatim>\<open>0xf7\<close> (247); \<^verbatim>\<open>capitalize\<close> takes
    32 from such a first character, and turns a first \<^verbatim>\<open>0xdf\<close> (sharp s) into \<^verbatim>\<open>Ss\<close>.
    The capitals of \<^verbatim>\<open>0xb5\<close> (micro sign) and \<^verbatim>\<open>0xff\<close> lie above 255: capitalized, a string that
    starts with one of these two is no string of this model, and \<open>py_capitalize\<close> keeps
    its first character.
\<close>

datatype cell = Str string | Num int | NaN

definition isinstance_str :: "cell \<Rightarrow> bool" where
  "isinstance_str v = (case v of Str _ \<Rightarrow> True | _ \<Rightarrow> False)"

definition py_isspace :: "char \<Rightarrow> bool" where
  "py_isspace c =
     (let n = (of_char c :: nat) in
      (9 \<le> n \<and> n \<le> 13) \<or> (28 \<le> n \<and> n \<le> 32) \<or> n = 133 \<or> n = 160)"

definition py_isupper :: "char \<Rightarrow> bool" where
  "py_isupper c =
     (let n = (of_char c :: nat) in
      (65 \<le> n \<and> n \<le> 90) \<or> (192 \<le> n \<and> n \<le> 222 \<and> n \<noteq> 215))"

definition lower_char :: "char \<Rightarrow> char" where
  "lower_char c = (if py_isupper c then char_of ((of_char c :: nat) + 32) else c)"

definition upper_char :: "char \<Rightarrow> char" where
  "upper_char c =
     (let n = (of_char c :: nat) in
      if (97 \<le> n \<and> n \<le> 122) \<or> (224 \<le> n \<and> n \<le> 254 \<and> n \<noteq> 247) then char_of (n - 32)
      else c)"

definition py_lower :: "string \<Rightarrow> string" where
  "py_lower s = map lower_char s"

definition py_strip :: "string \<Rightarrow> string" where
  "py_strip s = rev (dropWhile py_isspace (rev (dropWhile py_isspace s)))"

text \<open>
  \<^verbatim>\<open>str.capitalize\<close> (Python 3.8 and later): the first character in title case, the
  others in lower case.
\<close>

definition py_capitalize :: "string \<Rightarrow> string" where
  "py_capitalize s =
     (case s of
        [] \<Rightarrow> []
      | c # cs \<Rightarrow> (if (of_char c :: nat) = 223 then ''Ss'' else [upper_char c]) @ py_lower cs)"

text \<open>
  \<^verbatim>\<open>str.split(',')\<close>: the pieces between the commas; one piece more than there are
  commas, so the empty string gives one empty piece.
\<close>

fun py_split_comma :: "string \<Rightarrow> string list" where
  "py_split_comma [] = [[]]"
| "py_split_comma (c # cs) =
     (if c = CHR '','' then [] # py_split_comma cs
      else (case py_split_comma cs of
              [] \<Rightarrow> [[c]]
            | t # ts \<Rightarrow> (c # t) # ts))"

subsection \<open>The text normalizer\<close>

text \<open>
  \<^verbatim>\<open>
  def clean_symptom(symptom):
      if isinstance(symptom, str):
          return symptom.strip().lower()
      else:
          return ""
  \<close>
\<close>

definition clean_symptom :: "cell \<Rightarrow> string" where
  "clean_symptom symptom =
     (if isinstance_str symptom then (case symptom of Str s \<Rightarrow> py_lower (py_strip s) | _ \<Rightarrow> [])
      else [])"

subsection \<open>Rendering values\<close>

text \<open>
  \<^verbatim>\<open>str\<close> of a Python value, as an f-string or \<^verbatim>\<open>st.write\<close> renders it: a string is
  itself, an integer its decimal digits, the missing value \<^verbatim>\<open>nan\<close>. Floats other than
  \<^verbatim>\<open>nan\<close> are not cells of this model. pandas reads a column of whole numbers with an
  empty field as floats, and the program writes \<^verbatim>\<open>1.0\<close> for the number 1 of such a
  column: where a cell is written, a number cell \<open>Num i\<close> stands for a Python \<^verbatim>\<open>int\<close>, the
  cell of a column of whole numbers with no empty field.
\<close>

fun str_nat :: "nat \<Rightarrow> string" where
  "str_nat n =
     (if n < 10 then [''0123456789'' ! n]
      else str_nat (n div 10) @ [''0123456789'' ! (n mod 10)])"

declare str_nat.simps [simp del]

definition str_int :: "int \<Rightarrow> string" where
  "str_int i = (if i < 0 then ''-'' @ str_nat (nat (- i)) else str_nat (nat i))"

definition py_str :: "cell \<Rightarrow> string" where
  "py_str v = (case v of Str s \<Rightarrow> s | Num i \<Rightarrow> str_int i | NaN \<Rightarrow> ''nan'')"

text \<open>The piece \<^verbatim>\<open>'{x}'\<close> of an f-string: the text between two apostrophes.\<close>

definition quoted :: "string \<Rightarrow> string" where
  "quoted s = CHR 0x27 # s @ [CHR 0x27]"

subsection \<open>Floating point\<close>

text \<open>
  Python floats are IEEE 754 binary64 numbers. The values the program computes are
  positive and at most 100, so a float is modelled by the rational number it denotes,
  and an operation by the exact operation followed by \<open>to_double\<close>: rounding to the
  nearest number with a 53 bit significand (or to the nearest multiple of \<open>2 powi -1074\<close>
  in the subnormal range), ties to the even significand.
  \<open>ilog2 x\<close> is the exponent \<open>k\<close> with \<open>2 powi k \<le> x < 2 powi (k + 1)\<close>.
\<close>

definition round_half_even :: "rat \<Rightarrow> int" where
  "round_half_even x =
     (let f = \<lfloor>x\<rfloor>; d = x - of_int f in
      if d < 1 / 2 then f else if 1 / 2 < d then f + 1 else if even f then f else f + 1)"

definition ilog2 :: "rat \<Rightarrow> int" where
  "ilog2 x =
     (let (a, b) = quotient_of x; k = bitlen a - bitlen b in
      if 2 powi k \<le> x then k else k - 1)"

definition to_double :: "rat \<Rightarrow> rat" where
  "to_double x =
     (if x = 0 then 0
      else (let e = max (ilog2 x - 52) (- 1074) in
            of_int (round_half_even (x / 2 powi e)) * 2 powi e))"

text \<open>\<^verbatim>\<open>a / b\<close> on two ints (true division, correctly rounded) and \<^verbatim>\<open>x * y\<close> on floats.\<close>

definition int_true_div :: "nat \<Rightarrow> nat \<Rightarrow> rat" where
  "int_true_div a b = to_double (of_nat a / of_nat b)"

definition float_mul :: "rat \<Rightarrow> rat \<Rightarrow> rat" where
  "float_mul x y = to_double (x * y)"

text \<open>
  The format \<^verbatim>\<open>{x:.2f}\<close>: the decimal number with two digits after the point that is
  nearest to the float, ties to the even digit. \<open>cents x\<close> is that number times 100.
\<close>

definition cents :: "rat \<Rightarrow> nat" where
  "cents x = nat (round_half_even (\<bar>x\<bar> * 100))"

definition format_2f :: "rat \<Rightarrow> string" where
  "format_2f x =
     (if x < 0 then ''-'' else []) @ str_nat (cents x div 100) @ ''.''
       @ [''0123456789'' ! (cents x div 10 mod 10), ''0123456789'' ! (cents x mod 10)]"

subsection \<open>\<^verbatim>\<open>collections.Counter\<close>\<close>

text \<open>
  A \<^verbatim>\<open>Counter\<close> is a dict from element to count, in the order of first insertion.
  \<^verbatim>\<open>most_common()\<close> is \<^verbatim>\<open>sorted(items, key=itemgetter(1), reverse=True)\<close>: a stable
  sort, so elements of equal count keep their insertion order. Keys are compared as values;
  the missing value is one key (pandas stores the one object \<^verbatim>\<open>nan\<close>).
\<close>

fun counter_add :: "'a \<Rightarrow> ('a \<times> nat) list \<Rightarrow> ('a \<times> nat) list" where
  "counter_add x [] = [(x, 1)]"
| "counter_add x ((y, n) # kvs) =
     (if x = y then (y, n + 1) # kvs else (y, n) # counter_add x kvs)"

definition Counter :: "'a list \<Rightarrow> ('a \<times> nat) list" where
  "Counter xs = foldl (\<lambda>acc x. counter_add x acc) [] xs"

definition most_common :: "('a \<times> nat) list \<Rightarrow> ('a \<times> nat) list" where
  "most_common kvs = sort_key (\<lambda>kv. - int (snd kv)) kvs"

subsection \<open>Regular expressions\<close>

text \<open>
  \<^verbatim>\<open>Series.str.contains(pat)\<close> has \<^verbatim>\<open>regex=True\<close> by default: it compiles \<^verbatim>\<open>pat\<close>
  with \<^verbatim>\<open>re.compile\<close> and searches every string of the column with it.
  Two classes of patterns are modelled here:
  \<^item> a pattern without any of the special characters \<^verbatim>\<open>. ^ $ * + ? { } [ ] \ | ( )\<close>
    matches itself, so the search is the substring test;
  \<^item> a pattern whose only special characters are opening parentheses has a group
    that is never closed: \<^verbatim>\<open>re.compile\<close> raises \<^verbatim>\<open>re.error\<close>
    (missing ), unterminated subpattern).
  Every other pattern is left to the parameter \<open>eng\<close>, which stands for the rest of
  Python's \<^verbatim>\<open>re\<close> module: \<open>eng pat\<close> is \<open>None\<close> when \<^verbatim>\<open>re.compile(pat)\<close> raises,
  and the search function of the compiled pattern otherwise.
\<close>

datatype py_error = ReError | AttributeError

type_synonym regex_engine = "string \<Rightarrow> (string \<Rightarrow> bool) option"

definition re_special :: "char \<Rightarrow> bool" where
  "re_special c = (c \<in> set ''.^$*+?{}[]|()'' \<or> c = CHR 0x5C)"

text \<open>\<^verbatim>\<open>sub in s\<close>: the substring test.\<close>

fun py_contains :: "string \<Rightarrow> string \<Rightarrow> bool" where
  "py_contains sub [] = (sub = [])"
| "py_contains sub (c # cs) = (prefix sub (c # cs) \<or> py_contains sub cs)"

definition re_compile :: "regex_engine \<Rightarrow> string \<Rightarrow> py_error + (string \<Rightarrow> bool)" where
  "re_compile eng pat =
     (if \<not> list_ex re_special pat then Inr (py_contains pat)
      else if \<not> list_ex (\<lambda>c. re_special c \<and> c \<noteq> CHR ''('') pat then Inl ReError
      else (case eng pat of None \<Rightarrow> Inl ReError | Some search \<Rightarrow> Inr search))"

section \<open>The tables\<close>

text \<open>
  \<^verbatim>\<open>dataframes\<close> is the dict of the tables that were read; a table whose file was
  missing, empty or malformed has no entry. A table is the list of its rows, a row the
  record of its cells; \<^verbatim>\<open>weight\<close> is a column of integers. A row of \<^verbatim>\<open>dataset.csv\<close> is its
  \<^verbatim>\<open>Disease\<close> cell followed by the cells of the symptom columns.
\<close>

record dataset_row =
  ds_Disease :: cell
  ds_Symptoms :: "cell list"

record description_row =
  sd_Disease :: cell
  sd_Description :: cell

record precaution_row =
  sp_Disease :: cell
  Precaution_1 :: cell
  Precaution_2 :: cell
  Precaution_3 :: cell
  Precaution_4 :: cell

record severity_row =
  Symptom :: cell
  weight :: int

record medquad_row =
  question :: cell
  answer :: cell

record dataframes =
  dataset :: "dataset_row list option"
  symptom_description :: "description_row list option"
  symptom_precaution :: "precaution_row list option"
  Symptom_severity :: "severity_row list option"
  medquad :: "medquad_row list option"

text \<open>The cells of a row of \<^verbatim>\<open>dataset.csv\<close>, as \<^verbatim>\<open>for symptom in row\<close> visits them.\<close>

definition row_cells :: "dataset_row \<Rightarrow> cell list" where
  "row_cells row = ds_Disease row # ds_Symptoms row"

subsection \<open>Column operations of pandas\<close>

text \<open>
  The \<^verbatim>\<open>.str\<close> accessor of a column exists when the column holds text: it raises
  \<^verbatim>\<open>AttributeError\<close> (Can only use .str accessor with string values) on a column that has
  rows and holds no string, be it a column of numbers or a column whose fields are all
  empty. A column without rows, and a column with at least one string, have it.
  \<^verbatim>\<open>.str.lower()\<close> lower-cases a string and gives \<^verbatim>\<open>nan\<close> for anything else; \<^verbatim>\<open>==\<close>
  with a string is false for \<^verbatim>\<open>nan\<close>; \<^verbatim>\<open>.str.contains\<close> gives \<^verbatim>\<open>nan\<close> (here \<open>None\<close>)
  for \<^verbatim>\<open>nan\<close>, and \<^verbatim>\<open>&\<close> of two such columns is false where either is \<^verbatim>\<open>nan\<close>.
\<close>

definition str_accessor :: "cell list \<Rightarrow> py_error + cell list" where
  "str_accessor column =
     (if column \<noteq> [] \<and> \<not> list_ex isinstance_str column then Inl AttributeError
      else Inr column)"

definition str_lower :: "cell \<Rightarrow> cell" where
  "str_lower v = (case v of Str s \<Rightarrow> Str (py_lower s) | _ \<Rightarrow> NaN)"

definition eq_str :: "cell \<Rightarrow> string \<Rightarrow> bool" where
  "eq_str v q = (case v of Str s \<Rightarrow> s = q | _ \<Rightarrow> False)"

definition str_contains :: "(string \<Rightarrow> bool) \<Rightarrow> cell \<Rightarrow> bool option" where
  "str_contains search v = (case v of Str s \<Rightarrow> Some (search s) | _ \<Rightarrow> None)"

definition mask_and :: "bool option \<Rightarrow> bool option \<Rightarrow> bool" where
  "mask_and a b = (case a of None \<Rightarrow> False | Some x \<Rightarrow> (case b of None \<Rightarrow> False | Some y \<Rightarrow> x \<and> y))"

section \<open>The query operations\<close>

text \<open>
  Every operation writes lines with \<^verbatim>\<open>st.write\<close>; its model returns the list of the
  lines written, or \<open>Inl\<close> of the error when the operation raises (it then has written
  nothing). \<open>match_symptoms\<close> uses neither the \<^verbatim>\<open>.str\<close> accessor nor a pattern and has
  no error to return.
\<close>

subsection \<open>\<^verbatim>\<open>display_disease_description\<close>\<close>

text \<open>
  \<^verbatim>\<open>
  def display_disease_description(disease_name, dataframes):
      if 'symptom_description' in dataframes:
          symptom_description_df = dataframes['symptom_description']
          filtered_df = symptom_description_df[
              symptom_description_df['Disease'].str.lower() == disease_name.lower()]
          if not filtered_df.empty:
              description = filtered_df.iloc[0]['Description']
              st.write(f"Disease Description for '{disease_name.capitalize()}':")
              st.write(description)
          else:
              st.write(f"Disease '{disease_name}' not found in the dataset.")
      else:
          st.write("Symptom description dataset not loaded.")
  \<close>
  The \<^verbatim>\<open>.str\<close> accessor of the \<^verbatim>\<open>Disease\<close> column is taken first; where it raises, nothing
  is written.
\<close>

definition display_disease_description :: "string \<Rightarrow> dataframes \<Rightarrow> py_error + string list" where
  "display_disease_description disease_name dataframes =
     (case symptom_description dataframes of
        Some symptom_description_df \<Rightarrow>
          (case str_accessor (map sd_Disease symptom_description_df) of
             Inl e \<Rightarrow> Inl e
           | Inr _ \<Rightarrow>
               (let filtered_df =
                      filter (\<lambda>row. eq_str (str_lower (sd_Disease row)) (py_lower disease_name))
                        symptom_description_df
                in case filtered_df of
                     row0 # _ \<Rightarrow>
                       (let description = sd_Description row0 in
                        Inr [''Disease Description for '' @ quoted (py_capitalize disease_name) @ '':'',
                             py_str description])
                   | [] \<Rightarrow> Inr [''Disease '' @ quoted disease_name @ '' not found in the dataset.'']))
      | None \<Rightarrow> Inr [''Symptom description dataset not loaded.''])"

subsection \<open>\<^verbatim>\<open>match_symptoms\<close>\<close>

text \<open>
  \<^verbatim>\<open>
  def match_symptoms(symptoms_input, dataframes):
      user_symptoms_list = [clean_symptom(symptom) for symptom in symptoms_input.split(',')]
      if 'dataset' in dataframes:
          dataset_df = dataframes['dataset']
          matched_diseases = dataset_df[dataset_df.apply(
              lambda row: any(clean_symptom(symptom) in user_symptoms_list for symptom in row),
              axis=1)]
          if not matched_diseases.empty:
              disease_counts = Counter(matched_diseases['Disease'])
              st.write("Potential diseases associated with your symptoms:")
              for disease, count in disease_counts.most_common():
                  disease_percentage = (count / len(matched_diseases)) * 100
                  st.write(f"- {disease} ({disease_percentage:.2f}%)")
          else:
              st.write("No matching diseases found for the provided symptoms.")
      else:
          st.write("Dataset not loaded.")
  \<close>

  The values the function computes on its way, named as in the source:
  \<^verbatim>\<open>user_symptoms_list\<close>, the row test of \<^verbatim>\<open>dataset_df.apply\<close>, \<^verbatim>\<open>matched_diseases\<close>,
  \<^verbatim>\<open>disease_counts\<close> and \<^verbatim>\<open>disease_percentage\<close> (\<open>cnt\<close> is the \<^verbatim>\<open>count\<close> of the
  source). The division is by the number of matched rows, which is not zero where the
  division is reached.
\<close>

definition user_symptoms_list :: "string \<Rightarrow> string list" where
  "user_symptoms_list symptoms_input =
     map (\<lambda>symptom. clean_symptom (Str symptom)) (py_split_comma symptoms_input)"

definition row_matches :: "string list \<Rightarrow> dataset_row \<Rightarrow> bool" where
  "row_matches symptoms row = list_ex (\<lambda>symptom. clean_symptom symptom \<in> set symptoms) (row_cells row)"

definition matched_diseases :: "string \<Rightarrow> dataset_row list \<Rightarrow> dataset_row list" where
  "matched_diseases symptoms_input dataset_df =
     filter (row_matches (user_symptoms_list symptoms_input)) dataset_df"

definition disease_counts :: "dataset_row list \<Rightarrow> (cell \<times> nat) list" where
  "disease_counts matched = Counter (map ds_Disease matched)"

definition disease_percentage :: "nat \<Rightarrow> nat \<Rightarrow> rat" where
  "disease_percentage cnt n_matched = float_mul (int_true_div cnt n_matched) 100"

definition match_symptoms :: "string \<Rightarrow> dataframes \<Rightarrow> string list" where
  "match_symptoms symptoms_input dataframes =
     (case dataset dataframes of
        Some dataset_df \<Rightarrow>
          (let matched = matched_diseases symptoms_input dataset_df in
           if matched \<noteq> [] then
             ''Potential diseases associated with your symptoms:'' #
             map (\<lambda>(disease, cnt).
                    ''- '' @ py_str disease @ '' (''
                      @ format_2f (disease_percentage cnt (length matched)) @ ''%)'')
               (most_common (disease_counts matched))
           else [''No matching diseases found for the provided symptoms.''])
      | None \<Rightarrow> [''Dataset not loaded.''])"

subsection \<open>\<^verbatim>\<open>display_precautions\<close>\<close>

text \<open>
  \<^verbatim>\<open>
  def display_precautions(disease_name, dataframes):
      if 'symptom_precaution' in dataframes:
          symptom_precaution_df = dataframes['symptom_precaution']
          filtered_df = symptom_precaution_df[
              symptom_precaution_df['Disease'].str.lower() == disease_name.lower()]
          if not filtered_df.empty:
              precautions = filtered_df.iloc[0][
                  ['Precaution_1', 'Precaution_2', 'Precaution_3', 'Precaution_4']].tolist()
              precautions = [precaution for precaution in precautions
                             if isinstance(precaution, str)]
              if precautions:
                  st.write(f"Precautions for {disease_name.capitalize()}:")
                  for precaution in precautions:
                      st.write(f"- {precaution}")
              else:
                  st.write(f"No precautions listed for '{disease_name}' in the dataset.")
          else:
              st.write(f"Disease '{disease_name}' not found in the dataset.")
      else:
          st.write("Symptom precaution dataset not loaded.")
  \<close>
\<close>

definition display_precautions :: "string \<Rightarrow> dataframes \<Rightarrow> py_error + string list" where
  "display_precautions disease_name dataframes =
     (case symptom_precaution dataframes of
        Some symptom_precaution_df \<Rightarrow>
          (case str_accessor (map sp_Disease symptom_precaution_df) of
             Inl e \<Rightarrow> Inl e
           | Inr _ \<Rightarrow>
               (let filtered_df =
                      filter (\<lambda>row. eq_str (str_lower (sp_Disease row)) (py_lower disease_name))
                        symptom_precaution_df
                in case filtered_df of
                     row0 # _ \<Rightarrow>
                       (let precautions = [Precaution_1 row0, Precaution_2 row0,
                                           Precaution_3 row0, Precaution_4 row0];
                            precautions = filter isinstance_str precautions
                        in if precautions \<noteq> [] then
                             Inr ((''Precautions for '' @ py_capitalize disease_name @ '':'') #
                                  map (\<lambda>precaution. ''- '' @ py_str precaution) precautions)
                           else Inr [''No precautions listed for '' @ quoted disease_name
                                       @ '' in the dataset.''])
                   | [] \<Rightarrow> Inr [''Disease '' @ quoted disease_name @ '' not found in the dataset.'']))
      | None \<Rightarrow> Inr [''Symptom precaution dataset not loaded.''])"

subsection \<open>\<^verbatim>\<open>display_symptom_severity\<close>\<close>

text \<open>
  \<^verbatim>\<open>
  def display_symptom_severity(symptom_name, dataframes):
      if 'Symptom-severity' in dataframes:
          symptom_severity_df = dataframes['Symptom-severity']
          filtered_df = symptom_severity_df[
              symptom_severity_df['Symptom'].str.lower() == symptom_name.lower()]
          if not filtered_df.empty:
              severity = filtered_df['weight'].values[0]
              st.write(f"Severity of {symptom_name.capitalize()}: {severity}")
          else:
              st.write(f"Symptom '{symptom_name}' not found in the dataset.")
      else:
          st.write("Symptom severity dataset not loaded.")
  \<close>
\<close>

definition display_symptom_severity :: "string \<Rightarrow> dataframes \<Rightarrow> py_error + string list" where
  "display_symptom_severity symptom_name dataframes =
     (case Symptom_severity dataframes of
        Some symptom_severity_df \<Rightarrow>
          (case str_accessor (map Symptom symptom_severity_df) of
             Inl e \<Rightarrow> Inl e
           | Inr _ \<Rightarrow>
               (let filtered_df =
                      filter (\<lambda>row. eq_str (str_lower (Symptom row)) (py_lower symptom_name))
                        symptom_severity_df
                in case filtered_df of
                     row0 # _ \<Rightarrow>
                       (let severity = weight row0 in
                        Inr [''Severity of '' @ py_capitalize symptom_name @ '': ''
                               @ str_int severity])
                   | [] \<Rightarrow> Inr [''Symptom '' @ quoted symptom_name @ '' not found in the dataset.'']))
      | None \<Rightarrow> Inr [''Symptom severity dataset not loaded.''])"

subsection \<open>The lookups in the question and answer table\<close>

text \<open>
  \<^verbatim>\<open>
  matched_row = medquad_df[
      medquad_df['question'].str.lower().str.contains(disease_name) &
      medquad_df['question'].str.lower().str.contains('cause')]
  \<close>
  The \<^verbatim>\<open>.str\<close> accessor of the \<^verbatim>\<open>question\<close> column is taken first, and then the first
  pattern is compiled. That pattern is the text the user entered, as entered; the second
  is a literal word, whose search is the substring test. The three functions differ in
  that word and in the lines they write.
\<close>

definition medquad_matched :: "(string \<Rightarrow> bool) \<Rightarrow> string \<Rightarrow> medquad_row list \<Rightarrow> medquad_row list" where
  "medquad_matched name_search keyword medquad_df =
     filter (\<lambda>row. mask_and (str_contains name_search (str_lower (question row)))
                             (str_contains (py_contains keyword) (str_lower (question row))))
       medquad_df"

definition display_disease_causes :: "regex_engine \<Rightarrow> string \<Rightarrow> dataframes \<Rightarrow> py_error + string list" where
  "display_disease_causes eng disease_name dataframes =
     (case medquad dataframes of
        Some medquad_df \<Rightarrow>
          (case str_accessor (map question medquad_df) of
             Inl e \<Rightarrow> Inl e
           | Inr _ \<Rightarrow>
               (case re_compile eng disease_name of
                  Inl e \<Rightarrow> Inl e
                | Inr name_search \<Rightarrow>
                    (let matched_row = medquad_matched name_search ''cause'' medquad_df in
                     if matched_row \<noteq> [] then
                       (let causes = map answer matched_row in
                        if causes \<noteq> [] then
                          Inr ((''Causes of '' @ py_capitalize disease_name @ '' (from 'medquad' dataset):'') #
                               map (\<lambda>cause. ''- '' @ py_str cause) causes)
                        else Inr [''No causes found for '' @ quoted disease_name @ '' in the 'medquad' dataset.''])
                     else Inr [''No causes found for '' @ quoted disease_name @ '' in the 'medquad' dataset.''])))
      | None \<Rightarrow> Inr [''Medquad dataset not loaded.''])"

definition display_disease_diagnosis :: "regex_engine \<Rightarrow> string \<Rightarrow> dataframes \<Rightarrow> py_error + string list" where
  "display_disease_diagnosis eng disease_name dataframes =
     (case medquad dataframes of
        Some medquad_df \<Rightarrow>
          (case str_accessor (map question medquad_df) of
             Inl e \<Rightarrow> Inl e
           | Inr _ \<Rightarrow>
               (case re_compile eng disease_name of
                  Inl e \<Rightarrow> Inl e
                | Inr name_search \<Rightarrow>
                    (let matched_row = medquad_matched name_search ''diagnose'' medquad_df in
                     if matched_row \<noteq> [] then
                       (let diagnoses = map answer matched_row in
                        if diagnoses \<noteq> [] then
                          Inr ((''Diagnosis of '' @ py_capitalize disease_name @ '' (from 'medquad' dataset):'') #
                               map (\<lambda>diagnosis. ''- '' @ py_str diagnosis) diagnoses)
                        else Inr [''No diagnosis found for '' @ quoted disease_name @ '' in the 'medquad' dataset.''])
                     else Inr [''No diagnosis found for '' @ quoted disease_name @ '' in the 'medquad' dataset.''])))
      | None \<Rightarrow> Inr [''Medquad dataset not loaded.''])"

definition display_disease_research :: "regex_engine \<Rightarrow> string \<Rightarrow> dataframes \<Rightarrow> py_error + string list" where
  "display_disease_research eng disease_name dataframes =
     (case medquad dataframes of
        Some medquad_df \<Rightarrow>
          (case str_accessor (map question medquad_df) of
             Inl e \<Rightarrow> Inl e
           | Inr _ \<Rightarrow>
               (case re_compile eng disease_name of
                  Inl e \<Rightarrow> Inl e
                | Inr name_search \<Rightarrow>
                    (let matched_row = medquad_matched name_search ''research'' medquad_df in
                     if matched_row \<noteq> [] then
                       (let research_info = map answer matched_row in
                        if research_info \<noteq> [] then
                          Inr ((''Research about '' @ py_capitalize disease_name @ '' (from 'medquad' dataset):'') #
                               map (\<lambda>info. ''- '' @ py_str info) research_info)
                        else Inr [''No research information found for '' @ quoted disease_name
                                    @ '' in the 'medquad' dataset.''])
                     else Inr [''No research information found for '' @ quoted disease_name
                                 @ '' in the 'medquad' dataset.''])))
      | None \<Rightarrow> Inr [''Medquad dataset not loaded.''])"

section \<open>Example tables\<close>

text \<open>Small tables on which the theorems below are evaluated.\<close>

definition example_dataset :: "dataset_row list" where
  "example_dataset =
     [\<lparr>ds_Disease = Str ''Common Cold'', ds_Symptoms = [Str '' cough'', Str ''sneezing'']\<rparr>,
      \<lparr>ds_Disease = Str ''Flu'', ds_Symptoms = [Str ''fever'', Str ''Cough'']\<rparr>,
      \<lparr>ds_Disease = Str ''Malaria'', ds_Symptoms = [Str ''fever'', NaN]\<rparr>,
      \<lparr>ds_Disease = Str ''Common Cold'', ds_Symptoms = [Str ''cough'', NaN]\<rparr>,
      \<lparr>ds_Disease = Str ''Common Cold'', ds_Symptoms = [Str ''headache'', Str ''cough'']\<rparr>]"

definition example_dataset_thirds :: "dataset_row list" where
  "example_dataset_thirds =
     [\<lparr>ds_Disease = Str ''Asthma'', ds_Symptoms = [Str ''cough'']\<rparr>,
      \<lparr>ds_Disease = Str ''Bronchitis'', ds_Symptoms = [Str ''cough'']\<rparr>,
      \<lparr>ds_Disease = Str ''Flu'', ds_Symptoms = [Str ''cough'']\<rparr>]"

definition example_tables :: dataframes where
  "example_tables =
     \<lparr>dataset = Some example_dataset,
      symptom_description =
        Some [\<lparr>sd_Disease = Str ''Malaria'', sd_Description = Str ''Spread by mosquitoes.''\<rparr>,
              \<lparr>sd_Disease = Str ''Flu'', sd_Description = Str ''A viral infection.''\<rparr>,
              \<lparr>sd_Disease = Str ''FLU'', sd_Description = Str ''A second entry.''\<rparr>],
      symptom_precaution =
        Some [\<lparr>sp_Disease = Str ''Flu'', Precaution_1 = Str ''rest'', Precaution_2 = NaN,
                Precaution_3 = Str ''drink fluids'', Precaution_4 = NaN\<rparr>,
              \<lparr>sp_Disease = Str ''flu'', Precaution_1 = Str ''see a doctor'', Precaution_2 = NaN,
                Precaution_3 = NaN, Precaution_4 = NaN\<rparr>],
      Symptom_severity =
        Some [\<lparr>Symptom = Str ''itching'', weight = 1\<rparr>, \<lparr>Symptom = Str ''Itching'', weight = 5\<rparr>],
      medquad =
        Some [\<lparr>question = Str ''What causes Flu?'', answer = Str ''Influenza viruses.''\<rparr>,
              \<lparr>question = NaN, answer = Str ''No question.''\<rparr>]\<rparr>"

section \<open>Properties of the string methods\<close>

lemma clean_symptom_Str: "clean_symptom (Str s) = py_lower (py_strip s)"
  by (simp add: clean_symptom_def isinstance_str_def)

lemma clean_symptom_Num: "clean_symptom (Num n) = []"
  by (simp add: clean_symptom_def isinstance_str_def)

lemma clean_symptom_NaN: "clean_symptom NaN = []"
  by (simp add: clean_symptom_def isinstance_str_def)

lemma lower_char_not_upper: "\<not> py_isupper (lower_char c)"
  by (auto simp: lower_char_def py_isupper_def Let_def)

lemma lower_char_idem: "lower_char (lower_char c) = lower_char c"
  using lower_char_not_upper [of c] by (simp add: lower_char_def [of "lower_char c"])

lemma isspace_not_upper: "py_isspace c \<Longrightarrow> \<not> py_isupper c"
  by (auto simp: py_isspace_def py_isupper_def Let_def)

lemma isspace_lower_char: "py_isspace (lower_char c) = py_isspace c"
  by (auto simp: lower_char_def py_isspace_def py_isupper_def Let_def)

lemma dropWhile_decomp: "\<exists>pre. xs = pre @ dropWhile P xs \<and> (\<forall>x\<in>set pre. P x)"
proof
  show "xs = takeWhile P xs @ dropWhile P xs \<and> (\<forall>x\<in>set (takeWhile P xs). P x)"
    by (auto dest: set_takeWhileD)
qed

lemma py_strip_decomp:
  "\<exists>pre suf. s = pre @ py_strip s @ suf \<and> (\<forall>c\<in>set pre. py_isspace c) \<and> (\<forall>c\<in>set suf. py_isspace c)"
proof -
  let ?d = "dropWhile py_isspace s"
  obtain pre where pre: "s = pre @ ?d" "\<forall>c\<in>set pre. py_isspace c"
    using dropWhile_decomp [of s py_isspace] by blast
  obtain fus where fus: "rev ?d = fus @ dropWhile py_isspace (rev ?d)" "\<forall>c\<in>set fus. py_isspace c"
    using dropWhile_decomp [of "rev ?d" py_isspace] by blast
  have "rev (rev ?d) = rev (fus @ dropWhile py_isspace (rev ?d))"
    using fus(1) by simp
  then have "?d = py_strip s @ rev fus"
    by (simp add: py_strip_def)
  with pre fus(2) show ?thesis
    by (intro exI [of _ pre] exI [of _ "rev fus"]) auto
qed

lemma py_strip_hd: "py_strip s \<noteq> [] \<Longrightarrow> \<not> py_isspace (hd (py_strip s))"
proof -
  assume ne: "py_strip s \<noteq> []"
  let ?d = "dropWhile py_isspace s"
  let ?e = "dropWhile py_isspace (rev ?d)"
  have e: "?e \<noteq> []" using ne by (simp add: py_strip_def)
  then have d: "?d \<noteq> []" by (cases "?d = []") simp_all
  have "hd (rev ?e) = hd ?d"
  proof -
    obtain fus where fus: "rev ?d = fus @ ?e"
      using dropWhile_decomp [of "rev ?d" py_isspace] by blast
    then have "rev (rev ?d) = rev (fus @ ?e)" by simp
    then have "?d = rev ?e @ rev fus" by simp
    then have "hd ?d = hd (rev ?e @ rev fus)" by simp
    with e show ?thesis by simp
  qed
  moreover have "\<not> py_isspace (hd ?d)"
    using d by (rule hd_dropWhile)
  ultimately show ?thesis by (simp add: py_strip_def)
qed

lemma py_strip_last: "py_strip s \<noteq> [] \<Longrightarrow> \<not> py_isspace (last (py_strip s))"
proof -
  assume ne: "py_strip s \<noteq> []"
  let ?e = "dropWhile py_isspace (rev (dropWhile py_isspace s))"
  have e: "?e \<noteq> []" using ne by (simp add: py_strip_def)
  then have "\<not> py_isspace (hd ?e)" by (rule hd_dropWhile)
  with e show ?thesis by (simp add: py_strip_def last_rev)
qed

lemma py_lower_idem: "py_lower (py_lower s) = py_lower s"
  by (simp add: py_lower_def lower_char_idem)

section \<open>Properties of the symptom matcher\<close>

lemma clean_symptom_non_str: "\<not> isinstance_str c \<Longrightarrow> clean_symptom c = []"
  by (simp add: clean_symptom_def)

lemma isinstance_str_iff: "isinstance_str c \<longleftrightarrow> (\<exists>s. c = Str s)"
  by (cases c) (simp_all add: isinstance_str_def)

lemma row_matches_iff:
  "row_matches symptoms row \<longleftrightarrow> (\<exists>c\<in>set (row_cells row). clean_symptom c \<in> set symptoms)"
  by (simp add: row_matches_def list_ex_iff)

lemma set_matched_diseases:
  "set (matched_diseases symptoms_input dataset_df) =
     {row \<in> set dataset_df. row_matches (user_symptoms_list symptoms_input) row}"
  by (simp add: matched_diseases_def)

subsection \<open>The counter and its ranking\<close>

lemma counter_add_sum: "sum_list (map snd (counter_add x kvs)) = Suc (sum_list (map snd kvs))"
  by (induction kvs) auto

lemma counter_add_keys_img:
  "fst ` set (counter_add x kvs) = insert x (fst ` set kvs)"
proof (induction kvs)
  case Nil
  then show ?case by simp
next
  case (Cons kv kvs)
  obtain y n where kv: "kv = (y, n)" by (cases kv)
  show ?case
  proof (cases "x = y")
    case True
    then show ?thesis by (simp add: kv insert_absorb)
  next
    case False
    then show ?thesis using Cons by (simp add: kv insert_commute)
  qed
qed

lemma counter_add_keys:
  "set (map fst (counter_add x kvs)) = insert x (set (map fst kvs))"
  using counter_add_keys_img [of x kvs] by simp

lemma counter_add_distinct:
  "distinct (map fst kvs) \<Longrightarrow> distinct (map fst (counter_add x kvs))"
proof (induction kvs)
  case Nil
  then show ?case by simp
next
  case (Cons kv kvs)
  obtain y n where kv: "kv = (y, n)" by (cases kv)
  with Cons show ?case
    using counter_add_keys [of x kvs] by auto
qed

lemma counter_add_map_of:
  "map_of (counter_add x kvs) k =
     (if k = x then Some (case map_of kvs x of None \<Rightarrow> 1 | Some n \<Rightarrow> n + 1) else map_of kvs k)"
  by (induction kvs) auto

lemma foldl_counter_sum:
  "sum_list (map snd (foldl (\<lambda>acc x. counter_add x acc) acc xs)) = sum_list (map snd acc) + length xs"
  by (induction xs arbitrary: acc) (simp_all add: counter_add_sum)

lemma foldl_counter_keys:
  "set (map fst (foldl (\<lambda>acc x. counter_add x acc) acc xs)) = set (map fst acc) \<union> set xs"
  by (induction xs arbitrary: acc) (simp_all add: counter_add_keys del: set_map)

lemma foldl_counter_distinct:
  "distinct (map fst acc) \<Longrightarrow> distinct (map fst (foldl (\<lambda>acc x. counter_add x acc) acc xs))"
  by (induction xs arbitrary: acc) (simp_all add: counter_add_distinct)

lemma foldl_counter_map_of:
  "map_of (foldl (\<lambda>acc x. counter_add x acc) acc xs) k =
     (if k \<in> set xs then Some ((case map_of acc k of None \<Rightarrow> 0 | Some n \<Rightarrow> n) + count_list xs k) else map_of acc k)"
proof (induction xs arbitrary: acc)
  case Nil
  then show ?case by simp
next
  case (Cons x xs)
  show ?case
    by (auto simp: Cons counter_add_map_of count_list_0_iff split: option.splits)
qed

lemma Counter_sum: "sum_list (map snd (Counter xs)) = length xs"
  by (simp add: Counter_def foldl_counter_sum)

lemma Counter_keys: "set (map fst (Counter xs)) = set xs"
  using foldl_counter_keys [of "[]" xs] by (simp add: Counter_def)

lemma Counter_distinct: "distinct (map fst (Counter xs))"
  by (simp add: Counter_def foldl_counter_distinct)

lemma Counter_count: "(k, n) \<in> set (Counter xs) \<longleftrightarrow> k \<in> set xs \<and> n = count_list xs k"
proof -
  have "(k, n) \<in> set (Counter xs) \<longleftrightarrow> map_of (Counter xs) k = Some n"
    using Counter_distinct [of xs] by simp
  also have "\<dots> \<longleftrightarrow> k \<in> set xs \<and> n = count_list xs k"
    by (auto simp: Counter_def foldl_counter_map_of)
  finally show ?thesis .
qed

lemma most_common_set: "set (most_common kvs) = set kvs"
  by (simp add: most_common_def)

lemma most_common_mset: "mset (most_common kvs) = mset kvs"
  by (simp add: most_common_def)

lemma most_common_distinct: "distinct (map fst (most_common kvs)) = distinct (map fst kvs)"
proof -
  have "mset (map fst (most_common kvs)) = mset (map fst kvs)"
    by (simp add: most_common_mset)
  then show ?thesis by (rule mset_eq_imp_distinct_iff)
qed

lemma most_common_descending: "sorted_wrt (\<lambda>a b. snd b \<le> snd a) (most_common kvs)"
proof -
  have "sorted (map (\<lambda>kv. - int (snd kv)) (most_common kvs))"
    unfolding most_common_def by (rule sorted_sort_key)
  then show ?thesis by (simp add: sorted_map)
qed

lemma most_common_sum: "sum_list (map snd (most_common kvs)) = sum_list (map snd kvs)"
proof -
  have "mset (map snd (most_common kvs)) = mset (map snd kvs)"
    by (simp add: most_common_mset)
  then show ?thesis by (metis sum_mset_sum_list)
qed

lemma set_disease_counts:
  "(disease, cnt) \<in> set (most_common (disease_counts matched)) \<longleftrightarrow>
     disease \<in> set (map ds_Disease matched) \<and> cnt = count_list (map ds_Disease matched) disease"
  by (simp only: most_common_set disease_counts_def Counter_count)

lemma distinct_disease_counts: "distinct (map fst (most_common (disease_counts matched)))"
  by (simp add: most_common_distinct disease_counts_def Counter_distinct)

lemma sum_disease_counts:
  "sum_list (map snd (most_common (disease_counts matched))) = length matched"
  by (simp add: most_common_sum disease_counts_def Counter_sum)

lemma sum_list_shares:
  "(\<Sum>kv\<leftarrow>r. of_nat (snd kv) / d * 100) = (of_nat (sum_list (map snd r)) / d * 100 :: rat)"
  by (induction r) (simp_all add: add_divide_distrib distrib_right)

lemma ranked_two:
  fixes r :: "('a \<times> nat) list"
  assumes "distinct (map fst r)" and "set r = {(a, m), (b, n)}" and "a \<noteq> b" and "n < m"
    and "sorted_wrt (\<lambda>x y. snd y \<le> snd x) r"
  shows "r = [(a, m), (b, n)]"
proof -
  have d: "distinct r" using assms(1) by (simp add: distinct_map)
  then have "length r = card (set r)" by (simp add: distinct_card)
  also have "\<dots> = 2" using assms(2,3) by simp
  finally obtain x y where r: "r = [x, y]"
    by (auto simp: numeral_2_eq_2 length_Suc_conv)
  with assms(2) d have "(x = (a, m) \<and> y = (b, n)) \<or> (x = (b, n) \<and> y = (a, m))"
    by (auto simp: doubleton_eq_iff)
  with assms(4,5) r show ?thesis by auto
qed

lemma ranked_cold_flu:
  assumes "mset ds = {#Str ''Common Cold'', Str ''Common Cold'', Str ''Common Cold'', Str ''Flu''#}"
  shows "most_common (Counter ds) = [(Str ''Common Cold'', 3), (Str ''Flu'', 1)]"
proof -
  have "set ds = set_mset (mset ds)" by simp
  then have s: "set ds = {Str ''Common Cold'', Str ''Flu''}"
    by (simp only: assms) auto
  have c: "count_list ds k = count (mset ds) k" for k
    by (simp add: count_mset count_list_eq_length_filter eq_commute)
  have "set (most_common (Counter ds)) = {(Str ''Common Cold'', 3), (Str ''Flu'', 1)}"
    by (auto simp: most_common_set Counter_count s c assms)
  moreover have "distinct (map fst (most_common (Counter ds)))"
    by (simp add: most_common_distinct Counter_distinct)
  ultimately show ?thesis
    by (intro ranked_two most_common_descending) simp_all
qed

section \<open>Rounding errors of the percentages\<close>

lemma round_half_even_error: "\<bar>of_int (round_half_even z) - z\<bar> \<le> 1 / 2"
proof -
  have "of_int \<lfloor>z\<rfloor> \<le> z" "z < of_int \<lfloor>z\<rfloor> + 1" by linarith+
  then show ?thesis
    by (auto simp: round_half_even_def Let_def abs_le_iff)
qed

lemma round_half_even_nonneg: "0 \<le> z \<Longrightarrow> 0 \<le> round_half_even z"
proof -
  assume "0 \<le> z"
  then have "0 \<le> \<lfloor>z\<rfloor>" by simp
  then show ?thesis by (auto simp: round_half_even_def Let_def)
qed

lemma ilog2_lower:
  assumes "0 < x"
  shows "2 powi (ilog2 x) \<le> x"
proof -
  obtain a b where q: "quotient_of x = (a, b)" by (cases "quotient_of x")
  then have b: "0 < b" and x: "x = of_int a / of_int b"
    by (auto dest: quotient_of_denom_pos quotient_of_div)
  with assms have a: "0 < a" by (simp add: zero_less_divide_iff)
  let ?k = "bitlen a - bitlen b"
  show ?thesis
  proof (cases "2 powi ?k \<le> x")
    case True
    then show ?thesis by (simp add: ilog2_def q)
  next
    case False
    have la: "1 \<le> bitlen a" and lb: "1 \<le> bitlen b"
      using a b by (simp_all add: bitlen_alt_def)
    have "2 ^ nat (bitlen a - 1) \<le> a" using bitlen_bounds [OF a] by simp
    then have "(of_int (2 ^ nat (bitlen a - 1)) :: rat) \<le> of_int a"
      by (simp only: of_int_le_iff)
    then have A: "(2::rat) powi (bitlen a - 1) \<le> of_int a"
      using la by (simp add: power_int_nonneg_exp)
    have "b < 2 ^ nat (bitlen b)" using bitlen_bounds [OF b] by simp
    then have "(of_int b :: rat) < of_int (2 ^ nat (bitlen b))"
      by (simp only: of_int_less_iff)
    then have B: "(of_int b :: rat) \<le> 2 powi (bitlen b)"
      using lb by (simp add: power_int_nonneg_exp)
    have k1: "?k - 1 = (bitlen a - 1) - bitlen b" by simp
    have "(2::rat) powi (?k - 1) = 2 powi ((bitlen a - 1) - bitlen b)"
      by (simp only: k1)
    also have "\<dots> = 2 powi (bitlen a - 1) / 2 powi (bitlen b)"
      by (rule power_int_diff) simp
    also have "\<dots> \<le> of_int a / 2 powi (bitlen b)"
      using A by (simp add: divide_right_mono)
    also have "\<dots> \<le> of_int a / of_int b"
      using B a b by (simp add: frac_le)
    finally have "(2::rat) powi (?k - 1) \<le> of_int a / of_int b" .
    moreover have "ilog2 x = ?k - 1" using False by (simp add: ilog2_def q)
    ultimately show ?thesis by (simp only: x)
  qed
qed

lemma ilog2_upper:
  assumes "0 < x" and "x < 2 powi (k + 1)"
  shows "ilog2 x \<le> k"
proof (rule ccontr)
  assume "\<not> ilog2 x \<le> k"
  then have "k + 1 \<le> ilog2 x" by simp
  then have "(2::rat) powi (k + 1) \<le> 2 powi (ilog2 x)"
    by (intro power_int_increasing) simp_all
  also have "\<dots> \<le> x" using assms(1) by (rule ilog2_lower)
  finally show False using assms(2) by simp
qed

lemma to_double_nonneg: "0 \<le> x \<Longrightarrow> 0 \<le> to_double x"
  by (simp add: to_double_def Let_def round_half_even_nonneg)

lemma to_double_error:
  assumes "0 < x" and "ilog2 x \<le> k"
  shows "\<bar>to_double x - x\<bar> \<le> 2 powi (max (k - 52) (- 1074)) / 2"
proof -
  define e where "e = max (ilog2 x - 52) (- 1074)"
  have p: "(0::rat) < 2 powi e" by simp
  have "to_double x - x = (of_int (round_half_even (x / 2 powi e)) - x / 2 powi e) * 2 powi e"
    using assms(1) by (simp add: to_double_def e_def [symmetric] algebra_simps)
  then have "\<bar>to_double x - x\<bar> = \<bar>of_int (round_half_even (x / 2 powi e)) - x / 2 powi e\<bar> * 2 powi e"
    by (simp add: abs_mult)
  also have "\<dots> \<le> 1 / 2 * 2 powi e"
    using round_half_even_error [of "x / 2 powi e"] p by (intro mult_right_mono) simp_all
  also have "\<dots> \<le> 1 / 2 * 2 powi (max (k - 52) (- 1074))"
  proof -
    have "e \<le> max (k - 52) (- 1074)" using assms(2) by (simp add: e_def)
    then have "(2::rat) powi e \<le> 2 powi (max (k - 52) (- 1074))"
      by (intro power_int_increasing) simp_all
    then show ?thesis by simp
  qed
  finally show ?thesis by simp
qed

lemma cents_error:
  assumes "0 \<le> x"
  shows "\<bar>of_nat (cents x) / 100 - x\<bar> \<le> 1 / 200"
proof -
  have "0 \<le> round_half_even (x * 100)"
    using assms by (intro round_half_even_nonneg) simp
  then have "(of_nat (cents x) :: rat) = of_int (round_half_even (x * 100))"
    using assms by (simp add: cents_def)
  moreover have "\<bar>of_int (round_half_even (x * 100)) - x * 100\<bar> \<le> 1 / 2"
    by (rule round_half_even_error)
  ultimately show ?thesis by linarith
qed

lemma disease_percentage_nonneg: "0 \<le> disease_percentage c n"
  by (simp add: disease_percentage_def float_mul_def int_true_div_def to_double_nonneg)

lemma disease_percentage_error:
  assumes "0 < c" and "c \<le> n"
  shows "\<bar>disease_percentage c n - of_nat c / of_nat n * 100\<bar> \<le> 1 / 2 ^ 45"
proof -
  define x :: rat where "x = of_nat c / of_nat n"
  define fx where "fx = to_double x"
  have x: "0 < x" "x \<le> 1" using assms by (simp_all add: x_def)
  then have "x < 2 powi (0 + 1)" by simp
  with x(1) have "ilog2 x \<le> 0" by (rule ilog2_upper)
  with x(1) have "\<bar>fx - x\<bar> \<le> 2 powi (max (0 - 52) (- 1074)) / 2"
    unfolding fx_def by (rule to_double_error)
  then have ex: "\<bar>fx - x\<bar> \<le> 1 / 2 ^ 53"
    by (simp add: power_int_minus_divide)
  have fx0: "0 \<le> fx" using x(1) by (simp add: fx_def to_double_nonneg)
  have fx1: "fx \<le> 1 + 1 / 2 ^ 53" using ex x(2) by linarith
  define y where "y = fx * 100"
  have ey: "\<bar>to_double y - y\<bar> \<le> 1 / 2 ^ 47"
  proof (cases "y = 0")
    case True
    then show ?thesis by (simp add: to_double_def)
  next
    case False
    with fx0 have y0: "0 < y" by (simp add: y_def)
    have "y < 2 powi (6 + 1)" using fx1 unfolding y_def by simp
    with y0 have "ilog2 y \<le> 6" by (rule ilog2_upper)
    with y0 have "\<bar>to_double y - y\<bar> \<le> 2 powi (max (6 - 52) (- 1074)) / 2"
      by (rule to_double_error)
    then show ?thesis by (simp add: power_int_minus_divide)
  qed
  have "disease_percentage c n = to_double y"
    by (simp add: disease_percentage_def float_mul_def int_true_div_def y_def fx_def x_def)
  moreover have "\<bar>y - x * 100\<bar> \<le> 100 / 2 ^ 53"
    using ex unfolding y_def by linarith
  ultimately have "\<bar>disease_percentage c n - x * 100\<bar> \<le> 1 / 2 ^ 47 + 100 / 2 ^ 53"
    using ey by linarith
  then have "\<bar>disease_percentage c n - x * 100\<bar> \<le> 1 / 2 ^ 45" by simp
  then show ?thesis by (simp only: x_def)
qed

lemma reported_percentage_error:
  assumes "0 < c" and "c \<le> n"
  shows "\<bar>of_nat (cents (disease_percentage c n)) / 100 - of_nat c / of_nat n * 100\<bar>
           \<le> (1 / 200 + 1 / 2 ^ 45 :: rat)"
  using cents_error [OF disease_percentage_nonneg [of c n]] disease_percentage_error [OF assms]
  by linarith

lemma sum_list_error:
  fixes f g :: "'a \<Rightarrow> rat"
  assumes "\<And>x. x \<in> set xs \<Longrightarrow> \<bar>f x - g x\<bar> \<le> e"
  shows "\<bar>sum_list (map f xs) - sum_list (map g xs)\<bar> \<le> of_nat (length xs) * e"
  using assms
proof (induction xs)
  case Nil
  then show ?case by simp
next
  case (Cons x xs)
  have "\<bar>f x - g x\<bar> \<le> e" by (rule Cons.prems) simp
  moreover have "\<bar>sum_list (map f xs) - sum_list (map g xs)\<bar> \<le> of_nat (length xs) * e"
    by (rule Cons.IH) (simp add: Cons.prems)
  ultimately show ?case by (simp add: algebra_simps abs_le_iff)
qed

section \<open>Properties of the table lookups\<close>


lemma eq_str_lower_iff:
  "eq_str (str_lower v) (py_lower q) \<longleftrightarrow> (\<exists>s. v = Str s \<and> py_lower s = py_lower q)"
  by (cases v) (simp_all add: eq_str_def str_lower_def)

subsection \<open>The substring test and the patterns that compile\<close>

lemma re_compile_literal:
  "\<not> list_ex re_special pat \<Longrightarrow> re_compile eng pat = Inr (py_contains pat)"
  by (simp add: re_compile_def)

lemma py_contains_iff: "py_contains sub s \<longleftrightarrow> (\<exists>pre suf. s = pre @ sub @ suf)"
proof (induction s)
  case Nil
  show ?case by auto
next
  case (Cons c cs)
  show ?case
  proof
    assume "py_contains sub (c # cs)"
    then consider "prefix sub (c # cs)" | "py_contains sub cs" by auto
    then show "\<exists>pre suf. c # cs = pre @ sub @ suf"
    proof cases
      case 1
      then obtain suf where "c # cs = sub @ suf" by (auto simp: prefix_def)
      then have "c # cs = [] @ sub @ suf" by simp
      then show ?thesis by blast
    next
      case 2
      with Cons obtain pre suf where "cs = pre @ sub @ suf" by blast
      then have "c # cs = (c # pre) @ sub @ suf" by simp
      then show ?thesis by blast
    qed
  next
    assume "\<exists>pre suf. c # cs = pre @ sub @ suf"
    then obtain pre suf where ps: "c # cs = pre @ sub @ suf" by blast
    show "py_contains sub (c # cs)"
    proof (cases pre)
      case Nil
      with ps have "prefix sub (c # cs)" by (simp add: prefix_def)
      then show ?thesis by simp
    next
      case (Cons p pre')
      with ps have "cs = pre' @ sub @ suf" by simp
      with Cons.IH have "py_contains sub cs" by blast
      then show ?thesis by simp
    qed
  qed
qed

lemma substring_iff_py_contains: "(\<exists>pre suf. s = pre @ sub @ suf) = py_contains sub s"
  by (simp add: py_contains_iff)

lemma re_compile_literal_substring:
  assumes "\<not> list_ex re_special pat"
  shows "re_compile eng pat = Inr (\<lambda>text. \<exists>pre suf. text = pre @ pat @ suf)"
proof -
  have "py_contains pat = (\<lambda>text. \<exists>pre suf. text = pre @ pat @ suf)"
    by (rule ext) (rule py_contains_iff)
  with re_compile_literal [OF assms, of eng] show ?thesis by simp
qed

subsection \<open>The \<^verbatim>\<open>.str\<close> accessor\<close>

lemma str_accessor_Inr:
  "column = [] \<or> list_ex isinstance_str column \<Longrightarrow> str_accessor column = Inr column"
  by (auto simp: str_accessor_def)

lemma str_accessor_Inl:
  "column \<noteq> [] \<Longrightarrow> \<not> list_ex isinstance_str column \<Longrightarrow> str_accessor column = Inl AttributeError"
  by (simp add: str_accessor_def)

lemma eq_str_lower_isinstance: "eq_str (str_lower v) q \<Longrightarrow> isinstance_str v"
  by (cases v) (simp_all add: eq_str_def str_lower_def isinstance_str_def)

lemma str_accessor_match:
  assumes "row \<in> set table" and "eq_str (str_lower (key row)) q"
  shows "str_accessor (map key table) = Inr (map key table)"
proof -
  from assms have "isinstance_str (key row)" by (auto dest: eq_str_lower_isinstance)
  with assms(1) have "list_ex isinstance_str (map key table)" by (auto simp: list_ex_iff)
  then show ?thesis by (simp add: str_accessor_Inr)
qed

subsection \<open>The outcomes of the exact-match lookups\<close>

lemma description_outcome:
  assumes "symptom_description dataframes = Some description_df"
    and "description_df = [] \<or> list_ex isinstance_str (map sd_Disease description_df)"
  shows "display_disease_description disease_name dataframes =
      (case filter (\<lambda>row. eq_str (str_lower (sd_Disease row)) (py_lower disease_name)) description_df of
         row0 # _ \<Rightarrow>
           Inr [''Disease Description for '' @ quoted (py_capitalize disease_name) @ '':'',
                py_str (sd_Description row0)]
       | [] \<Rightarrow> Inr [''Disease '' @ quoted disease_name @ '' not found in the dataset.''])"
proof -
  have "str_accessor (map sd_Disease description_df) = Inr (map sd_Disease description_df)"
    using assms(2) by (simp add: str_accessor_Inr)
  with assms(1) show ?thesis by (simp add: display_disease_description_def split: list.splits)
qed

lemma precautions_outcome:
  assumes "symptom_precaution dataframes = Some precaution_df"
    and "precaution_df = [] \<or> list_ex isinstance_str (map sp_Disease precaution_df)"
  shows "display_precautions disease_name dataframes =
      (case filter (\<lambda>row. eq_str (str_lower (sp_Disease row)) (py_lower disease_name)) precaution_df of
         row0 # _ \<Rightarrow>
           (if filter isinstance_str [Precaution_1 row0, Precaution_2 row0,
                                      Precaution_3 row0, Precaution_4 row0] \<noteq> [] then
              Inr ((''Precautions for '' @ py_capitalize disease_name @ '':'') #
                   map (\<lambda>precaution. ''- '' @ py_str precaution)
                     (filter isinstance_str [Precaution_1 row0, Precaution_2 row0,
                                             Precaution_3 row0, Precaution_4 row0]))
            else Inr [''No precautions listed for '' @ quoted disease_name @ '' in the dataset.''])
       | [] \<Rightarrow> Inr [''Disease '' @ quoted disease_name @ '' not found in the dataset.''])"
proof -
  have "str_accessor (map sp_Disease precaution_df) = Inr (map sp_Disease precaution_df)"
    using assms(2) by (simp add: str_accessor_Inr)
  with assms(1) show ?thesis by (simp add: display_precautions_def Let_def split: list.splits)
qed

lemma severity_outcome:
  assumes "Symptom_severity dataframes = Some severity_df"
    and "severity_df = [] \<or> list_ex isinstance_str (map Symptom severity_df)"
  shows "display_symptom_severity symptom_name dataframes =
      (case filter (\<lambda>row. eq_str (str_lower (Symptom row)) (py_lower symptom_name)) severity_df of
         row0 # _ \<Rightarrow>
           Inr [''Severity of '' @ py_capitalize symptom_name @ '': '' @ str_int (weight row0)]
       | [] \<Rightarrow> Inr [''Symptom '' @ quoted symptom_name @ '' not found in the dataset.''])"
proof -
  have "str_accessor (map Symptom severity_df) = Inr (map Symptom severity_df)"
    using assms(2) by (simp add: str_accessor_Inr)
  with assms(1) show ?thesis by (simp add: display_symptom_severity_def split: list.splits)
qed

lemma description_raises:
  assumes "symptom_description dataframes = Some description_df"
    and "description_df \<noteq> []" and "\<not> list_ex isinstance_str (map sd_Disease description_df)"
  shows "display_disease_description disease_name dataframes = Inl AttributeError"
  using assms by (simp add: display_disease_description_def str_accessor_def)

lemma precautions_raises:
  assumes "symptom_precaution dataframes = Some precaution_df"
    and "precaution_df \<noteq> []" and "\<not> list_ex isinstance_str (map sp_Disease precaution_df)"
  shows "display_precautions disease_name dataframes = Inl AttributeError"
  using assms by (simp add: display_precautions_def str_accessor_def)

lemma severity_raises:
  assumes "Symptom_severity dataframes = Some severity_df"
    and "severity_df \<noteq> []" and "\<not> list_ex isinstance_str (map Symptom severity_df)"
  shows "display_symptom_severity symptom_name dataframes = Inl AttributeError"
  using assms by (simp add: display_symptom_severity_def str_accessor_def)

lemma match_exists_iff:
  "(filter (\<lambda>row. eq_str (str_lower (key row)) (py_lower q)) table \<noteq> [])
     = (\<exists>row\<in>set table. \<exists>s. key row = Str s \<and> py_lower s = py_lower q)"
  by (simp add: filter_empty_conv eq_str_lower_iff)

lemma match_text_column:
  assumes "\<exists>row\<in>set table. \<exists>s. key row = Str s \<and> py_lower s = py_lower q"
  shows "list_ex isinstance_str (map key table)"
  using assms by (force simp: list_ex_iff isinstance_str_def)

lemma description_not_found_iff:
  assumes "symptom_description dataframes = Some description_df"
  shows "(display_disease_description disease_name dataframes
            = Inr [''Disease '' @ quoted disease_name @ '' not found in the dataset.''])
       = ((description_df = [] \<or> list_ex isinstance_str (map sd_Disease description_df))
          \<and> \<not> (\<exists>row\<in>set description_df. \<exists>s. sd_Disease row = Str s \<and> py_lower s = py_lower disease_name))"
proof (cases "description_df = [] \<or> list_ex isinstance_str (map sd_Disease description_df)")
  case True
  let ?P = "\<lambda>row. eq_str (str_lower (sd_Disease row)) (py_lower disease_name)"
  have "(display_disease_description disease_name dataframes
            = Inr [''Disease '' @ quoted disease_name @ '' not found in the dataset.''])
        = (filter ?P description_df = [])"
    unfolding description_outcome [OF assms True]
    by (cases "filter ?P description_df") simp_all
  with True show ?thesis
    using match_exists_iff [of sd_Disease disease_name description_df] by blast
next
  case False
  then have "display_disease_description disease_name dataframes = Inl AttributeError"
    using description_raises [OF assms] by simp
  with False show ?thesis by simp
qed

lemma precautions_not_found_iff:
  assumes "symptom_precaution dataframes = Some precaution_df"
  shows "(display_precautions disease_name dataframes
            = Inr [''Disease '' @ quoted disease_name @ '' not found in the dataset.''])
       = ((precaution_df = [] \<or> list_ex isinstance_str (map sp_Disease precaution_df))
          \<and> \<not> (\<exists>row\<in>set precaution_df. \<exists>s. sp_Disease row = Str s \<and> py_lower s = py_lower disease_name))"
proof (cases "precaution_df = [] \<or> list_ex isinstance_str (map sp_Disease precaution_df)")
  case True
  let ?P = "\<lambda>row. eq_str (str_lower (sp_Disease row)) (py_lower disease_name)"
  have "(display_precautions disease_name dataframes
            = Inr [''Disease '' @ quoted disease_name @ '' not found in the dataset.''])
        = (filter ?P precaution_df = [])"
    unfolding precautions_outcome [OF assms True]
    by (cases "filter ?P precaution_df") simp_all
  with True show ?thesis
    using match_exists_iff [of sp_Disease disease_name precaution_df] by blast
next
  case False
  then have "display_precautions disease_name dataframes = Inl AttributeError"
    using precautions_raises [OF assms] by simp
  with False show ?thesis by simp
qed

lemma severity_not_found_iff:
  assumes "Symptom_severity dataframes = Some severity_df"
  shows "(display_symptom_severity symptom_name dataframes
            = Inr [''Symptom '' @ quoted symptom_name @ '' not found in the dataset.''])
       = ((severity_df = [] \<or> list_ex isinstance_str (map Symptom severity_df))
          \<and> \<not> (\<exists>row\<in>set severity_df. \<exists>s. Symptom row = Str s \<and> py_lower s = py_lower symptom_name))"
proof (cases "severity_df = [] \<or> list_ex isinstance_str (map Symptom severity_df)")
  case True
  let ?P = "\<lambda>row. eq_str (str_lower (Symptom row)) (py_lower symptom_name)"
  have "(display_symptom_severity symptom_name dataframes
            = Inr [''Symptom '' @ quoted symptom_name @ '' not found in the dataset.''])
        = (filter ?P severity_df = [])"
    unfolding severity_outcome [OF assms True]
    by (cases "filter ?P severity_df") simp_all
  with True show ?thesis
    using match_exists_iff [of Symptom symptom_name severity_df] by blast
next
  case False
  then have "display_symptom_severity symptom_name dataframes = Inl AttributeError"
    using severity_raises [OF assms] by simp
  with False show ?thesis by simp
qed

lemma description_found_iff:
  assumes "symptom_description dataframes = Some description_df"
  shows "(\<exists>lines. display_disease_description disease_name dataframes = Inr lines
            \<and> lines \<noteq> [''Disease '' @ quoted disease_name @ '' not found in the dataset.''])
       = (\<exists>row\<in>set description_df. \<exists>s. sd_Disease row = Str s \<and> py_lower s = py_lower disease_name)"
proof (cases "description_df = [] \<or> list_ex isinstance_str (map sd_Disease description_df)")
  case True
  let ?P = "\<lambda>row. eq_str (str_lower (sd_Disease row)) (py_lower disease_name)"
  have "(\<exists>lines. display_disease_description disease_name dataframes = Inr lines
            \<and> lines \<noteq> [''Disease '' @ quoted disease_name @ '' not found in the dataset.''])
        = (filter ?P description_df \<noteq> [])"
    unfolding description_outcome [OF assms True]
    by (cases "filter ?P description_df") simp_all
  then show ?thesis
    using match_exists_iff [of sd_Disease disease_name description_df] by blast
next
  case False
  then have "display_disease_description disease_name dataframes = Inl AttributeError"
    using description_raises [OF assms] by simp
  with False show ?thesis
    using match_text_column [of description_df sd_Disease disease_name] by auto
qed

lemma precautions_found_iff:
  assumes "symptom_precaution dataframes = Some precaution_df"
  shows "(\<exists>lines. display_precautions disease_name dataframes = Inr lines
            \<and> lines \<noteq> [''Disease '' @ quoted disease_name @ '' not found in the dataset.''])
       = (\<exists>row\<in>set precaution_df. \<exists>s. sp_Disease row = Str s \<and> py_lower s = py_lower disease_name)"
proof (cases "precaution_df = [] \<or> list_ex isinstance_str (map sp_Disease precaution_df)")
  case True
  let ?P = "\<lambda>row. eq_str (str_lower (sp_Disease row)) (py_lower disease_name)"
  have "(\<exists>lines. display_precautions disease_name dataframes = Inr lines
            \<and> lines \<noteq> [''Disease '' @ quoted disease_name @ '' not found in the dataset.''])
        = (filter ?P precaution_df \<noteq> [])"
    unfolding precautions_outcome [OF assms True]
    by (cases "filter ?P precaution_df") simp_all
  then show ?thesis
    using match_exists_iff [of sp_Disease disease_name precaution_df] by blast
next
  case False
  then have "display_precautions disease_name dataframes = Inl AttributeError"
    using precautions_raises [OF assms] by simp
  with False show ?thesis
    using match_text_column [of precaution_df sp_Disease disease_name] by auto
qed

lemma severity_found_iff:
  assumes "Symptom_severity dataframes = Some severity_df"
  shows "(\<exists>lines. display_symptom_severity symptom_name dataframes = Inr lines
            \<and> lines \<noteq> [''Symptom '' @ quoted symptom_name @ '' not found in the dataset.''])
       = (\<exists>row\<in>set severity_df. \<exists>s. Symptom row = Str s \<and> py_lower s = py_lower symptom_name)"
proof (cases "severity_df = [] \<or> list_ex isinstance_str (map Symptom severity_df)")
  case True
  let ?P = "\<lambda>row. eq_str (str_lower (Symptom row)) (py_lower symptom_name)"
  have "(\<exists>lines. display_symptom_severity symptom_name dataframes = Inr lines
            \<and> lines \<noteq> [''Symptom '' @ quoted symptom_name @ '' not found in the dataset.''])
        = (filter ?P severity_df \<noteq> [])"
    unfolding severity_outcome [OF assms True]
    by (cases "filter ?P severity_df") simp_all
  then show ?thesis
    using match_exists_iff [of Symptom symptom_name severity_df] by blast
next
  case False
  then have "display_symptom_severity symptom_name dataframes = Inl AttributeError"
    using severity_raises [OF assms] by simp
  with False show ?thesis
    using match_text_column [of severity_df Symptom symptom_name] by auto
qed

subsection \<open>The rows that the lookups in the question and answer table select\<close>

lemma medquad_matched_char:
  "medquad_matched search keyword medquad_df
     = filter (\<lambda>row. \<exists>q. question row = Str q \<and> search (py_lower q)
                        \<and> (\<exists>pre suf. py_lower q = pre @ keyword @ suf)) medquad_df"
  unfolding medquad_matched_def
  by (rule filter_cong [OF refl])
    (auto simp: str_contains_def str_lower_def mask_and_def py_contains_iff split: cell.splits)

lemma causes_outcome:
  assumes "medquad dataframes = Some medquad_df"
    and "medquad_df = [] \<or> list_ex isinstance_str (map question medquad_df)"
    and "re_compile eng disease_name = Inr search"
  shows "display_disease_causes eng disease_name dataframes =
      (let rows = medquad_matched search ''cause'' medquad_df in
       if rows = [] then
         Inr [''No causes found for '' @ quoted disease_name @ '' in the 'medquad' dataset.'']
       else Inr ((''Causes of '' @ py_capitalize disease_name @ '' (from 'medquad' dataset):'') #
                 map (\<lambda>row. ''- '' @ py_str (answer row)) rows))"
proof -
  have "str_accessor (map question medquad_df) = Inr (map question medquad_df)"
    using assms(2) by (simp add: str_accessor_Inr)
  with assms(1,3) show ?thesis
    by (simp add: display_disease_causes_def Let_def comp_def)
qed

lemma diagnosis_outcome:
  assumes "medquad dataframes = Some medquad_df"
    and "medquad_df = [] \<or> list_ex isinstance_str (map question medquad_df)"
    and "re_compile eng disease_name = Inr search"
  shows "display_disease_diagnosis eng disease_name dataframes =
      (let rows = medquad_matched search ''diagnose'' medquad_df in
       if rows = [] then
         Inr [''No diagnosis found for '' @ quoted disease_name @ '' in the 'medquad' dataset.'']
       else Inr ((''Diagnosis of '' @ py_capitalize disease_name @ '' (from 'medquad' dataset):'') #
                 map (\<lambda>row. ''- '' @ py_str (answer row)) rows))"
proof -
  have "str_accessor (map question medquad_df) = Inr (map question medquad_df)"
    using assms(2) by (simp add: str_accessor_Inr)
  with assms(1,3) show ?thesis
    by (simp add: display_disease_diagnosis_def Let_def comp_def)
qed

lemma research_outcome:
  assumes "medquad dataframes = Some medquad_df"
    and "medquad_df = [] \<or> list_ex isinstance_str (map question medquad_df)"
    and "re_compile eng disease_name = Inr search"
  shows "display_disease_research eng disease_name dataframes =
      (let rows = medquad_matched search ''research'' medquad_df in
       if rows = [] then
         Inr [''No research information found for '' @ quoted disease_name
                @ '' in the 'medquad' dataset.'']
       else Inr ((''Research about '' @ py_capitalize disease_name @ '' (from 'medquad' dataset):'') #
                 map (\<lambda>row. ''- '' @ py_str (answer row)) rows))"
proof -
  have "str_accessor (map question medquad_df) = Inr (map question medquad_df)"
    using assms(2) by (simp add: str_accessor_Inr)
  with assms(1,3) show ?thesis
    by (simp add: display_disease_research_def Let_def comp_def)
qed

subsection \<open>The two failure outcomes\<close>

lemma not_loaded_outcomes:
  "symptom_description dataframes = None \<Longrightarrow>
     display_disease_description disease_name dataframes
       = Inr [''Symptom description dataset not loaded.'']"
  "dataset dataframes = None \<Longrightarrow>
     match_symptoms symptoms_input dataframes = [''Dataset not loaded.'']"
  "symptom_precaution dataframes = None \<Longrightarrow>
     display_precautions disease_name dataframes = Inr [''Symptom precaution dataset not loaded.'']"
  "Symptom_severity dataframes = None \<Longrightarrow>
     display_symptom_severity symptom_name dataframes = Inr [''Symptom severity dataset not loaded.'']"
  "medquad dataframes = None \<Longrightarrow>
     display_disease_causes eng disease_name dataframes = Inr [''Medquad dataset not loaded.'']"
  "medquad dataframes = None \<Longrightarrow>
     display_disease_diagnosis eng disease_name dataframes = Inr [''Medquad dataset not loaded.'']"
  "medquad dataframes = None \<Longrightarrow>
     display_disease_research eng disease_name dataframes = Inr [''Medquad dataset not loaded.'']"
  by (simp_all add: display_disease_description_def match_symptoms_def display_precautions_def
      display_symptom_severity_def display_disease_causes_def display_disease_diagnosis_def
      display_disease_research_def)

lemma match_symptoms_not_found:
  "dataset dataframes = Some dataset_df \<Longrightarrow> matched_diseases symptoms_input dataset_df = [] \<Longrightarrow>
     match_symptoms symptoms_input dataframes = [''No matching diseases found for the provided symptoms.'']"
  by (simp add: match_symptoms_def)

lemma medquad_not_found:
  assumes "medquad dataframes = Some medquad_df"
    and "medquad_df = [] \<or> list_ex isinstance_str (map question medquad_df)"
    and "re_compile eng disease_name = Inr search"
  shows "medquad_matched search ''cause'' medquad_df = [] \<Longrightarrow>
           display_disease_causes eng disease_name dataframes
             = Inr [''No causes found for '' @ quoted disease_name @ '' in the 'medquad' dataset.'']"
    and "medquad_matched search ''diagnose'' medquad_df = [] \<Longrightarrow>
           display_disease_diagnosis eng disease_name dataframes
             = Inr [''No diagnosis found for '' @ quoted disease_name @ '' in the 'medquad' dataset.'']"
    and "medquad_matched search ''research'' medquad_df = [] \<Longrightarrow>
           display_disease_research eng disease_name dataframes
             = Inr [''No research information found for '' @ quoted disease_name
                      @ '' in the 'medquad' dataset.'']"
  by (simp_all add: causes_outcome [OF assms] diagnosis_outcome [OF assms]
      research_outcome [OF assms])

lemma failure_outcomes_differ:
  "''Disease '' @ quoted disease_name @ '' not found in the dataset.''
     \<noteq> ''Symptom description dataset not loaded.''"
  "''No matching diseases found for the provided symptoms.'' \<noteq> ''Dataset not loaded.''"
  "''Disease '' @ quoted disease_name @ '' not found in the dataset.''
     \<noteq> ''Symptom precaution dataset not loaded.''"
  "''Symptom '' @ quoted symptom_name @ '' not found in the dataset.''
     \<noteq> ''Symptom severity dataset not loaded.''"
  "''No causes found for '' @ quoted disease_name @ '' in the 'medquad' dataset.''
     \<noteq> ''Medquad dataset not loaded.''"
  "''No diagnosis found for '' @ quoted disease_name @ '' in the 'medquad' dataset.''
     \<noteq> ''Medquad dataset not loaded.''"
  "''No research information found for '' @ quoted disease_name @ '' in the 'medquad' dataset.''
     \<noteq> ''Medquad dataset not loaded.''"
  by (simp_all add: quoted_def)

lemma lookups_return_when_pattern_compiles:
  assumes "\<And>medquad_df. medquad dataframes = Some medquad_df \<Longrightarrow>
             medquad_df = [] \<or> list_ex isinstance_str (map question medquad_df)"
    and "re_compile eng disease_name = Inr search"
  shows "\<exists>lines. display_disease_causes eng disease_name dataframes = Inr lines"
    and "\<exists>lines. display_disease_diagnosis eng disease_name dataframes = Inr lines"
    and "\<exists>lines. display_disease_research eng disease_name dataframes = Inr lines"
proof -
  show "\<exists>lines. display_disease_causes eng disease_name dataframes = Inr lines"
  proof (cases "medquad dataframes")
    case None
    then show ?thesis by (simp add: not_loaded_outcomes)
  next
    case (Some medquad_df)
    show ?thesis
      unfolding causes_outcome [OF Some assms(1) [OF Some] assms(2)] by (simp add: Let_def)
  qed
  show "\<exists>lines. display_disease_diagnosis eng disease_name dataframes = Inr lines"
  proof (cases "medquad dataframes")
    case None
    then show ?thesis by (simp add: not_loaded_outcomes)
  next
    case (Some medquad_df)
    show ?thesis
      unfolding diagnosis_outcome [OF Some assms(1) [OF Some] assms(2)] by (simp add: Let_def)
  qed
  show "\<exists>lines. display_disease_research eng disease_name dataframes = Inr lines"
  proof (cases "medquad dataframes")
    case None
    then show ?thesis by (simp add: not_loaded_outcomes)
  next
    case (Some medquad_df)
    show ?thesis
      unfolding research_outcome [OF Some assms(1) [OF Some] assms(2)] by (simp add: Let_def)
  qed
qed

section \<open>Values at concrete inputs\<close>

lemma disease_percentage_1_1: "disease_percentage (Suc 0) (Suc 0) = 100"
  unfolding disease_percentage_def float_mul_def int_true_div_def by code_simp

lemma cents_100: "cents 100 = 10000"
  by code_simp

lemma format_2f_100: "format_2f 100 = ''100.00''"
  by (simp add: format_2f_def cents_100 str_nat.simps)

lemma user_symptoms_list_empty: "user_symptoms_list '''' = ['''']"
  by code_simp

lemma user_symptoms_list_cough: "user_symptoms_list ''cough'' = [''cough'']"
  by code_simp

lemma user_symptoms_list_cough_comma: "user_symptoms_list ''cough,'' = [''cough'', '''']"
  by code_simp

lemma user_symptoms_list_flu: "user_symptoms_list ''flu'' = [''flu'']"
  by code_simp

lemma clean_symptom_Cough: "clean_symptom (Str '' Cough'') = ''cough''"
  by code_simp

lemma clean_symptom_cough: "clean_symptom (Str ''cough'') = ''cough''"
  by code_simp

lemma clean_symptom_fever: "clean_symptom (Str ''fever'') = ''fever''"
  by code_simp

lemma clean_symptom_flu: "clean_symptom (Str ''flu'') = ''flu''"
  by code_simp

lemma clean_symptom_sp_flu: "clean_symptom (Str '' flu'') = ''flu''"
  by code_simp

lemma clean_symptom_Flu: "clean_symptom (Str ''Flu'') = ''flu''"
  by code_simp

lemma clean_symptom_Malaria: "clean_symptom (Str ''Malaria'') = ''malaria''"
  by code_simp

lemma py_lower_sp_flu: "py_lower '' flu'' = '' flu''"
  by code_simp

lemma py_lower_flu: "py_lower ''flu'' = ''flu''"
  by code_simp

lemma py_lower_Flu: "py_lower ''Flu'' = ''flu''"
  by code_simp

lemma py_capitalize_flu: "py_capitalize ''flu'' = ''Flu''"
  by code_simp

lemma disease_percentage_3_4: "disease_percentage 3 4 = 75"
  unfolding disease_percentage_def float_mul_def int_true_div_def by code_simp

lemma disease_percentage_1_4: "disease_percentage (Suc 0) 4 = 25"
  unfolding disease_percentage_def float_mul_def int_true_div_def by code_simp

lemma cents_75: "cents 75 = 7500"
  by code_simp

lemma cents_25: "cents 25 = 2500"
  by code_simp

lemma format_2f_75: "format_2f 75 = ''75.00''"
  by (simp add: format_2f_def cents_75 str_nat.simps)

lemma format_2f_25: "format_2f 25 = ''25.00''"
  by (simp add: format_2f_def cents_25 str_nat.simps)

lemma clean_symptom_example_cells:
  "clean_symptom (Str ''Common Cold'') = ''common cold''"
  "clean_symptom (Str '' cough'') = ''cough''"
  "clean_symptom (Str ''sneezing'') = ''sneezing''"
  "clean_symptom (Str ''Flu'') = ''flu''"
  "clean_symptom (Str ''fever'') = ''fever''"
  "clean_symptom (Str ''Cough'') = ''cough''"
  "clean_symptom (Str ''Malaria'') = ''malaria''"
  "clean_symptom (Str ''cough'') = ''cough''"
  "clean_symptom (Str ''headache'') = ''headache''"
  by code_simp+

lemma py_lower_Malaria: "py_lower ''Malaria'' = ''malaria''"
  by code_simp

lemma py_lower_FLU: "py_lower ''FLU'' = ''flu''"
  by code_simp

lemma py_lower_FLU_sp: "py_lower ''FLU '' = ''flu ''"
  by code_simp

lemma py_lower_fLU: "py_lower ''fLU'' = ''flu''"
  by code_simp

lemma py_lower_itching: "py_lower ''itching'' = ''itching''"
  by code_simp

lemma py_lower_question: "py_lower ''What causes Flu?'' = ''what causes flu?''"
  by code_simp


lemma contains_flu: "py_contains ''flu'' ''what causes flu?''"
  by code_simp

lemma contains_cause: "py_contains ''cause'' ''what causes flu?''"
  by code_simp

lemma not_contains_diagnose: "\<not> py_contains ''diagnose'' ''what causes flu?''"
  by code_simp

lemma py_lower_Itching: "py_lower ''Itching'' = ''itching''"
  by code_simp

lemma py_lower_Itching_sp: "py_lower ''Itching '' = ''itching ''"
  by code_simp

lemma clean_symptom_latin1:
  "clean_symptom (Str [CHR 0xA0, CHR 0xC0, CHR ''b'', CHR 0x85]) = [CHR 0xE0, CHR ''b'']"
  by code_simp

section \<open>The claims\<close>

text \<open>
  C9. The text normalizer is a total function of every cell value. Of a string it returns
  the lower-cased middle part that remains once the leading and the trailing whitespace is
  taken away: the result neither starts nor ends with whitespace and holds no upper-case
  letter. Of a number or a missing value it returns the empty string. The whitespace and
  the upper-case letters are those of Python on the code points 0 to 255: the no-break
  space \<^verbatim>\<open>0xa0\<close> and the next-line character \<^verbatim>\<open>0x85\<close> are stripped, and \<^verbatim>\<open>0xc0\<close> (capital A with
  grave) becomes \<^verbatim>\<open>0xe0\<close>.
\<close>

theorem clean_symptom_normalizes:
  "(\<exists>pre suf. s = pre @ py_strip s @ suf
       \<and> (\<forall>c\<in>set pre. py_isspace c) \<and> (\<forall>c\<in>set suf. py_isspace c)
       \<and> clean_symptom (Str s) = map lower_char (py_strip s))
   \<and> (clean_symptom (Str s) = [] \<or>
        (\<not> py_isspace (hd (clean_symptom (Str s))) \<and> \<not> py_isspace (last (clean_symptom (Str s)))))
   \<and> (\<forall>c\<in>set (clean_symptom (Str s)). \<not> py_isupper c)
   \<and> clean_symptom (Num n) = []
   \<and> clean_symptom NaN = []"
proof -
  have a: "\<exists>pre suf. s = pre @ py_strip s @ suf
       \<and> (\<forall>c\<in>set pre. py_isspace c) \<and> (\<forall>c\<in>set suf. py_isspace c)
       \<and> clean_symptom (Str s) = map lower_char (py_strip s)"
    using py_strip_decomp [of s] by (simp add: clean_symptom_Str py_lower_def)
  have b: "clean_symptom (Str s) = [] \<or>
        (\<not> py_isspace (hd (clean_symptom (Str s))) \<and> \<not> py_isspace (last (clean_symptom (Str s))))"
  proof (cases "py_strip s = []")
    case True
    then show ?thesis by (simp add: clean_symptom_Str py_lower_def)
  next
    case False
    with py_strip_hd [of s] py_strip_last [of s] show ?thesis
      by (simp add: clean_symptom_Str py_lower_def hd_map last_map isspace_lower_char)
  qed
  have c: "\<forall>c\<in>set (clean_symptom (Str s)). \<not> py_isupper c"
    by (simp add: clean_symptom_Str py_lower_def lower_char_not_upper)
  from a b c show ?thesis
    by (simp only: clean_symptom_Num clean_symptom_NaN simp_thms)
qed

theorem clean_symptom_normalizes_witness:
  "clean_symptom (Str ''  Skin_Rash '') = ''skin_rash''
   \<and> \<not> list_ex py_isupper (clean_symptom (Str ''  Skin_Rash ''))
   \<and> \<not> py_isspace (hd (clean_symptom (Str ''  Skin_Rash '')))
   \<and> \<not> py_isspace (last (clean_symptom (Str ''  Skin_Rash '')))
   \<and> clean_symptom (Num 3) = [] \<and> clean_symptom NaN = []
   \<and> clean_symptom (Str [CHR 0xA0, CHR 0xC0, CHR ''b'', CHR 0x85]) = [CHR 0xE0, CHR ''b'']
   \<and> \<not> list_ex py_isupper (clean_symptom (Str [CHR 0xA0, CHR 0xC0, CHR ''b'', CHR 0x85]))"
proof -
  have e: "clean_symptom (Str ''  Skin_Rash '') = ''skin_rash''"
    by code_simp
  from clean_symptom_normalizes [of "[CHR 0xA0, CHR 0xC0, CHR ''b'', CHR 0x85]" 3]
  have l: "\<not> list_ex py_isupper (clean_symptom (Str [CHR 0xA0, CHR 0xC0, CHR ''b'', CHR 0x85]))"
    unfolding list_ex_iff by blast
  from clean_symptom_normalizes [of "''  Skin_Rash ''" 3]
  have "(clean_symptom (Str ''  Skin_Rash '') = [] \<or>
          (\<not> py_isspace (hd (clean_symptom (Str ''  Skin_Rash '')))
           \<and> \<not> py_isspace (last (clean_symptom (Str ''  Skin_Rash '')))))
      \<and> (\<forall>c\<in>set (clean_symptom (Str ''  Skin_Rash '')). \<not> py_isupper c)
      \<and> clean_symptom (Num 3) = [] \<and> clean_symptom NaN = []"
    by blast
  moreover have "clean_symptom (Str ''  Skin_Rash '') \<noteq> []"
    by (simp add: e)
  ultimately have "\<not> py_isspace (hd (clean_symptom (Str ''  Skin_Rash '')))
      \<and> \<not> py_isspace (last (clean_symptom (Str ''  Skin_Rash '')))
      \<and> \<not> list_ex py_isupper (clean_symptom (Str ''  Skin_Rash ''))
      \<and> clean_symptom (Num 3) = [] \<and> clean_symptom NaN = []"
    by (simp add: list_ex_iff)
  with e l clean_symptom_latin1 show ?thesis by blast
qed

text \<open>
  C1. An input whose tokens all normalize to the empty string should give the
  outcome "no matching diseases found". The empty input has the single token \<open>''''\<close>, and
  \<open>clean_symptom\<close> maps a missing cell to \<open>''''\<close> as well: a row with an empty symptom slot
  matches, and its disease is reported. Evaluated on a table of one row.
\<close>

theorem match_symptoms_empty_input_matches:
  "user_symptoms_list '''' = ['''']
   \<and> match_symptoms ''''
        \<lparr>dataset = Some [\<lparr>ds_Disease = Str ''Flu'', ds_Symptoms = [Str '' cough'', NaN]\<rparr>],
         symptom_description = None, symptom_precaution = None, Symptom_severity = None,
         medquad = None\<rparr>
       = [''Potential diseases associated with your symptoms:'', ''- Flu (100.00%)'']"
  by (simp add: match_symptoms_def matched_diseases_def user_symptoms_list_empty row_matches_def
      row_cells_def clean_symptom_NaN disease_counts_def Counter_def most_common_def
      disease_percentage_1_1 format_2f_100 py_str_def)

text \<open>
  C4. No query operation should raise for any text the user enters. The lookups in the
  question and answer table hand the text to \<^verbatim>\<open>str.contains\<close> as a regular expression:
  for the input \<^verbatim>\<open>(\<close> the pattern does not compile and \<open>display_disease_causes\<close> raises
  \<^verbatim>\<open>re.error\<close>. Evaluated on a table of one question.
\<close>

theorem display_disease_causes_raises:
  "display_disease_causes eng ''(''
     \<lparr>dataset = None, symptom_description = None, symptom_precaution = None,
      Symptom_severity = None,
      medquad = Some [\<lparr>question = Str ''What causes flu?'', answer = Str ''A virus.''\<rparr>]\<rparr>
   = Inl ReError"
  by (simp add: display_disease_causes_def str_accessor_def isinstance_str_def re_compile_def
      re_special_def)

text \<open>
  C7. With the table present and no row matching, every operation should give its
  "not found" outcome. For the input \<^verbatim>\<open>flu (\<close> no question of the table can match, and
  \<open>display_disease_diagnosis\<close> raises \<^verbatim>\<open>re.error\<close> instead of writing that the diagnosis
  was not found.
\<close>

theorem display_disease_diagnosis_raises:
  "display_disease_diagnosis eng ''flu (''
     \<lparr>dataset = None, symptom_description = None, symptom_precaution = None,
      Symptom_severity = None,
      medquad = Some [\<lparr>question = Str ''How to diagnose measles?'',
                       answer = Str ''By a blood test.''\<rparr>]\<rparr>
   = Inl ReError"
  by (simp add: display_disease_diagnosis_def str_accessor_def isinstance_str_def re_compile_def
      re_special_def)

text \<open>
  C3, as stated: a missing symptom slot never makes a row match, and only a populated
  symptom cell equal to a queried symptom does. Both fail. For the input \<^verbatim>\<open>flu\<close> the row
  of the disease Flu matches through its \<^verbatim>\<open>Disease\<close> cell, with no symptom cell equal to
  \<^verbatim>\<open>flu\<close>; for the input \<^verbatim>\<open>cough,\<close> the second token is empty, and the row of Malaria
  matches through its missing slot.
\<close>

theorem missing_slot_counterexample:
  "matched_diseases ''flu'' [\<lparr>ds_Disease = Str ''Flu'', ds_Symptoms = [Str ''cough'', NaN]\<rparr>]
     = [\<lparr>ds_Disease = Str ''Flu'', ds_Symptoms = [Str ''cough'', NaN]\<rparr>]
   \<and> user_symptoms_list ''cough,'' = [''cough'', '''']
   \<and> matched_diseases ''cough,'' [\<lparr>ds_Disease = Str ''Malaria'', ds_Symptoms = [Str ''fever'', NaN]\<rparr>]
     = [\<lparr>ds_Disease = Str ''Malaria'', ds_Symptoms = [Str ''fever'', NaN]\<rparr>]"
  by (simp add: matched_diseases_def row_matches_def row_cells_def user_symptoms_list_flu
      user_symptoms_list_cough_comma clean_symptom_Flu clean_symptom_NaN)

text \<open>
  C3, amended. Every row of the table is tested, however many of its slots are
  populated. When no token of the input normalizes to the empty string, a cell that is not
  a string never makes a row match: a row matches if and only if one of its string cells
  (the \<^verbatim>\<open>Disease\<close> cell or a symptom slot) has a normalized value equal to a queried token.
\<close>

theorem missing_slots_never_match:
  assumes "[] \<notin> set (user_symptoms_list symptoms_input)"
  shows "row \<in> set (matched_diseases symptoms_input dataset_df) \<longleftrightarrow>
         row \<in> set dataset_df \<and>
         (\<exists>s. Str s \<in> set (row_cells row) \<and>
              clean_symptom (Str s) \<in> set (user_symptoms_list symptoms_input))"
proof -
  let ?syms = "user_symptoms_list symptoms_input"
  have "row_matches ?syms row \<longleftrightarrow>
        (\<exists>s. Str s \<in> set (row_cells row) \<and> clean_symptom (Str s) \<in> set ?syms)"
  proof
    assume "row_matches ?syms row"
    then obtain c where c: "c \<in> set (row_cells row)" "clean_symptom c \<in> set ?syms"
      by (auto simp: row_matches_iff)
    have "isinstance_str c"
    proof (rule ccontr)
      assume "\<not> isinstance_str c"
      then have "clean_symptom c = []" by (rule clean_symptom_non_str)
      with c(2) assms show False by simp
    qed
    then obtain s where "c = Str s" by (auto simp: isinstance_str_iff)
    with c show "\<exists>s. Str s \<in> set (row_cells row) \<and> clean_symptom (Str s) \<in> set ?syms"
      by blast
  next
    assume "\<exists>s. Str s \<in> set (row_cells row) \<and> clean_symptom (Str s) \<in> set ?syms"
    then show "row_matches ?syms row" by (auto simp: row_matches_iff)
  qed
  then show ?thesis by (simp add: set_matched_diseases)
qed

theorem missing_slots_never_match_witness:
  "[] \<notin> set (user_symptoms_list ''cough'')
   \<and> \<lparr>ds_Disease = Str ''Malaria'', ds_Symptoms = [NaN, NaN]\<rparr>
       \<notin> set (matched_diseases ''cough''
            [\<lparr>ds_Disease = Str ''Flu'', ds_Symptoms = [Str '' Cough'', NaN]\<rparr>,
             \<lparr>ds_Disease = Str ''Malaria'', ds_Symptoms = [NaN, NaN]\<rparr>])
   \<and> \<lparr>ds_Disease = Str ''Flu'', ds_Symptoms = [Str '' Cough'', NaN]\<rparr>
       \<in> set (matched_diseases ''cough''
            [\<lparr>ds_Disease = Str ''Flu'', ds_Symptoms = [Str '' Cough'', NaN]\<rparr>,
             \<lparr>ds_Disease = Str ''Malaria'', ds_Symptoms = [NaN, NaN]\<rparr>])"
proof -
  have h: "[] \<notin> set (user_symptoms_list ''cough'')"
    by (simp add: user_symptoms_list_cough)
  note t = missing_slots_never_match [OF h]
  have ex: "\<exists>s. (s = ''Flu'' \<or> s = '' Cough'') \<and> clean_symptom (Str s) = ''cough''"
    by (rule exI [of _ "'' Cough''"]) (simp add: clean_symptom_Cough)
  show ?thesis
    by (simp add: h t row_cells_def user_symptoms_list_cough clean_symptom_Malaria ex)
qed

text \<open>
  C10. The row test of \<open>match_symptoms\<close> visits every cell of the row, the \<^verbatim>\<open>Disease\<close>
  cell included. So whenever a token of the input has the normalized form of the disease
  name of a row, that row is among the matched rows and the operation reports diseases,
  whatever the symptom slots of the row hold.
\<close>

theorem disease_cell_is_tested:
  assumes "dataset dataframes = Some dataset_df" and "row \<in> set dataset_df"
    and "token \<in> set (py_split_comma symptoms_input)"
    and "clean_symptom (Str token) = clean_symptom (ds_Disease row)"
  shows "row \<in> set (matched_diseases symptoms_input dataset_df)
       \<and> hd (match_symptoms symptoms_input dataframes)
           = ''Potential diseases associated with your symptoms:''"
proof -
  have "clean_symptom (ds_Disease row) \<in> set (user_symptoms_list symptoms_input)"
    using assms(3,4) by (force simp: user_symptoms_list_def)
  then have "row_matches (user_symptoms_list symptoms_input) row"
    by (auto simp: row_matches_iff row_cells_def)
  with assms(2) have m: "row \<in> set (matched_diseases symptoms_input dataset_df)"
    by (simp add: set_matched_diseases)
  then have "matched_diseases symptoms_input dataset_df \<noteq> []" by auto
  with assms(1) m show ?thesis by (simp add: match_symptoms_def Let_def)
qed

theorem disease_cell_is_tested_witness:
  "''flu'' \<in> set (py_split_comma ''flu'')
   \<and> clean_symptom (Str ''flu'') = clean_symptom (Str ''Flu'')
   \<and> \<not> list_ex (\<lambda>c. clean_symptom c \<in> set (user_symptoms_list ''flu'')) [Str ''cough'', NaN]
   \<and> \<lparr>ds_Disease = Str ''Flu'', ds_Symptoms = [Str ''cough'', NaN]\<rparr>
       \<in> set (matched_diseases ''flu'' [\<lparr>ds_Disease = Str ''Flu'', ds_Symptoms = [Str ''cough'', NaN]\<rparr>])
   \<and> hd (match_symptoms ''flu''
        \<lparr>dataset = Some [\<lparr>ds_Disease = Str ''Flu'', ds_Symptoms = [Str ''cough'', NaN]\<rparr>],
         symptom_description = None, symptom_precaution = None, Symptom_severity = None,
         medquad = None\<rparr>)
       = ''Potential diseases associated with your symptoms:''"
proof -
  have a: "''flu'' \<in> set (py_split_comma ''flu'')" by simp
  have b: "clean_symptom (Str ''flu'') = clean_symptom (Str ''Flu'')"
    by (simp add: clean_symptom_flu clean_symptom_Flu)
  have c: "\<not> list_ex (\<lambda>c. clean_symptom c \<in> set (user_symptoms_list ''flu'')) [Str ''cough'', NaN]"
    by (simp add: user_symptoms_list_flu clean_symptom_cough clean_symptom_NaN)
  from disease_cell_is_tested [of
      "\<lparr>dataset = Some [\<lparr>ds_Disease = Str ''Flu'', ds_Symptoms = [Str ''cough'', NaN]\<rparr>],
        symptom_description = None, symptom_precaution = None, Symptom_severity = None,
        medquad = None\<rparr>"
      "[\<lparr>ds_Disease = Str ''Flu'', ds_Symptoms = [Str ''cough'', NaN]\<rparr>]"
      "\<lparr>ds_Disease = Str ''Flu'', ds_Symptoms = [Str ''cough'', NaN]\<rparr>"
      "''flu''" "''flu''"] a b
  have "\<lparr>ds_Disease = Str ''Flu'', ds_Symptoms = [Str ''cough'', NaN]\<rparr>
       \<in> set (matched_diseases ''flu'' [\<lparr>ds_Disease = Str ''Flu'', ds_Symptoms = [Str ''cough'', NaN]\<rparr>])
   \<and> hd (match_symptoms ''flu''
        \<lparr>dataset = Some [\<lparr>ds_Disease = Str ''Flu'', ds_Symptoms = [Str ''cough'', NaN]\<rparr>],
         symptom_description = None, symptom_precaution = None, Symptom_severity = None,
         medquad = None\<rparr>)
       = ''Potential diseases associated with your symptoms:''"
    by simp
  with a b c show ?thesis by blast
qed

text \<open>
  C5. When rows match, \<open>match_symptoms\<close> writes a heading and then one line for every
  distinct disease of the matched rows: the diseases in the order of descending count
  (\<open>ranked\<close>), each with the count of its matched rows, divided by the number of matched
  rows, times 100, in the format with two decimals. In particular, when the matched rows
  are three rows of Common Cold and one row of Flu, in any order, the lines are
  \<^verbatim>\<open>- Common Cold (75.00%)\<close> and \<^verbatim>\<open>- Flu (25.00%)\<close>.
\<close>

theorem match_symptoms_ranked_output:
  assumes "dataset dataframes = Some dataset_df"
    and "matched = matched_diseases symptoms_input dataset_df"
    and "matched \<noteq> []"
    and "ranked = most_common (disease_counts matched)"
  shows "match_symptoms symptoms_input dataframes =
           ''Potential diseases associated with your symptoms:'' #
           map (\<lambda>(disease, cnt).
                  ''- '' @ py_str disease @ '' (''
                    @ format_2f (disease_percentage cnt (length matched)) @ ''%)'') ranked
       \<and> sorted_wrt (\<lambda>a b. snd b \<le> snd a) ranked
       \<and> distinct (map fst ranked)
       \<and> (\<forall>disease cnt. (disease, cnt) \<in> set ranked \<longleftrightarrow>
             disease \<in> set (map ds_Disease matched)
             \<and> cnt = count_list (map ds_Disease matched) disease)
       \<and> (mset (map ds_Disease matched)
            = {#Str ''Common Cold'', Str ''Common Cold'', Str ''Common Cold'', Str ''Flu''#}
          \<longrightarrow> match_symptoms symptoms_input dataframes =
                [''Potential diseases associated with your symptoms:'',
                 ''- Common Cold (75.00%)'', ''- Flu (25.00%)''])"
proof -
  have out: "match_symptoms symptoms_input dataframes =
           ''Potential diseases associated with your symptoms:'' #
           map (\<lambda>(disease, cnt).
                  ''- '' @ py_str disease @ '' (''
                    @ format_2f (disease_percentage cnt (length matched)) @ ''%)'') ranked"
    using assms by (simp add: match_symptoms_def Let_def)
  have desc: "sorted_wrt (\<lambda>a b. snd b \<le> snd a) ranked"
    unfolding assms(4) by (rule most_common_descending)
  have dist: "distinct (map fst ranked)"
    unfolding assms(4) by (rule distinct_disease_counts)
  have cnts: "\<forall>disease cnt. (disease, cnt) \<in> set ranked \<longleftrightarrow>
             disease \<in> set (map ds_Disease matched)
             \<and> cnt = count_list (map ds_Disease matched) disease"
    unfolding assms(4) by (simp only: set_disease_counts simp_thms)
  have ex: "match_symptoms symptoms_input dataframes =
                [''Potential diseases associated with your symptoms:'',
                 ''- Common Cold (75.00%)'', ''- Flu (25.00%)'']"
    if m: "mset (map ds_Disease matched)
            = {#Str ''Common Cold'', Str ''Common Cold'', Str ''Common Cold'', Str ''Flu''#}"
  proof -
    have "size (mset (map ds_Disease matched)) = 4" by (simp only: m) simp
    then have len: "length matched = 4" by simp
    have r: "ranked = [(Str ''Common Cold'', 3), (Str ''Flu'', 1)]"
      unfolding assms(4) disease_counts_def using m by (rule ranked_cold_flu)
    show ?thesis
      by (simp add: out r len disease_percentage_3_4 disease_percentage_1_4
          format_2f_75 format_2f_25 py_str_def)
  qed
  from out desc dist cnts ex show ?thesis by blast
qed

theorem match_symptoms_ranked_output_witness:
  "dataset example_tables = Some example_dataset
   \<and> matched_diseases ''cough'' example_dataset
       = [example_dataset ! 0, example_dataset ! 1, example_dataset ! 3, example_dataset ! 4]
   \<and> map ds_Disease (matched_diseases ''cough'' example_dataset)
       = [Str ''Common Cold'', Str ''Flu'', Str ''Common Cold'', Str ''Common Cold'']
   \<and> match_symptoms ''cough'' example_tables
       = [''Potential diseases associated with your symptoms:'',
          ''- Common Cold (75.00%)'', ''- Flu (25.00%)'']"
proof -
  have d: "dataset example_tables = Some example_dataset"
    by (simp add: example_tables_def)
  have m: "matched_diseases ''cough'' example_dataset
       = [example_dataset ! 0, example_dataset ! 1, example_dataset ! 3, example_dataset ! 4]"
    by (simp add: matched_diseases_def example_dataset_def user_symptoms_list_cough
        row_matches_def row_cells_def clean_symptom_NaN clean_symptom_example_cells)
  have ds: "map ds_Disease (matched_diseases ''cough'' example_dataset)
       = [Str ''Common Cold'', Str ''Flu'', Str ''Common Cold'', Str ''Common Cold'']"
    by (simp add: m) (simp add: example_dataset_def)
  have ne: "matched_diseases ''cough'' example_dataset \<noteq> []"
    by (simp add: m)
  have ms: "mset (map ds_Disease (matched_diseases ''cough'' example_dataset))
       = {#Str ''Common Cold'', Str ''Common Cold'', Str ''Common Cold'', Str ''Flu''#}"
    by (simp add: ds)
  from match_symptoms_ranked_output [OF d refl ne refl] ms
  have "match_symptoms ''cough'' example_tables
       = [''Potential diseases associated with your symptoms:'',
          ''- Common Cold (75.00%)'', ''- Flu (25.00%)'']"
    by blast
  with d m ds show ?thesis by blast
qed

text \<open>
  C6. When rows match, the shares of the reported diseases (count divided by the number
  of matched rows, times 100) add up to exactly 100 as rational numbers. The numbers
  written, with two decimals, add up to 100 within the rounding of each of them: half a
  unit of the last decimal for the format, and less than \<open>1 / 2 ^ 45\<close> for the two
  floating point operations.
\<close>

theorem percentages_sum_to_100:
  assumes "matched = matched_diseases symptoms_input dataset_df"
    and "matched \<noteq> []"
    and "ranked = most_common (disease_counts matched)"
  shows "(\<Sum>(disease, cnt)\<leftarrow>ranked. of_nat cnt / of_nat (length matched) * 100) = (100 :: rat)
       \<and> \<bar>(\<Sum>(disease, cnt)\<leftarrow>ranked.
              of_nat (cents (disease_percentage cnt (length matched))) / 100) - 100\<bar>
           \<le> (of_nat (length ranked) * (1 / 200 + 1 / 2 ^ 45) :: rat)"
proof -
  let ?n = "length matched"
  let ?g = "\<lambda>(disease :: cell, cnt). (of_nat cnt / of_nat ?n * 100 :: rat)"
  let ?f = "\<lambda>(disease :: cell, cnt). (of_nat (cents (disease_percentage cnt ?n)) / 100 :: rat)"
  have n: "0 < ?n" using assms(2) by simp
  have "sum_list (map ?g ranked) = of_nat (sum_list (map snd ranked)) / of_nat ?n * 100"
    using sum_list_shares [where r = ranked and d = "of_nat ?n"] by (simp add: case_prod_unfold)
  also have "sum_list (map snd ranked) = ?n"
    unfolding assms(3) by (rule sum_disease_counts)
  finally have exact: "sum_list (map ?g ranked) = 100" using n by simp
  have "\<bar>?f kv - ?g kv\<bar> \<le> 1 / 200 + 1 / 2 ^ 45" if "kv \<in> set ranked" for kv
  proof -
    obtain d c where kv: "kv = (d, c)" by (cases kv)
    with that have "d \<in> set (map ds_Disease matched)" "c = count_list (map ds_Disease matched) d"
      unfolding assms(3) by (simp_all only: set_disease_counts)
    then have "0 < c" "c \<le> ?n"
      using count_list_0_iff [of "map ds_Disease matched" d]
        count_le_length [of "map ds_Disease matched" d] by simp_all
    then show ?thesis unfolding kv by (simp only: prod.case reported_percentage_error)
  qed
  then have "\<bar>sum_list (map ?f ranked) - sum_list (map ?g ranked)\<bar>
        \<le> of_nat (length ranked) * (1 / 200 + 1 / 2 ^ 45)"
    by (rule sum_list_error)
  with exact show ?thesis by simp
qed

theorem percentages_sum_to_100_witness:
  "matched_diseases ''cough'' example_dataset_thirds = example_dataset_thirds
   \<and> most_common (disease_counts example_dataset_thirds)
       = [(Str ''Asthma'', 1), (Str ''Bronchitis'', 1), (Str ''Flu'', 1)]
   \<and> cents (disease_percentage 1 3) = 3333
   \<and> (\<Sum>(disease, cnt)\<leftarrow>most_common (disease_counts example_dataset_thirds).
         of_nat cnt / of_nat (length example_dataset_thirds) * 100) = (100 :: rat)
   \<and> \<bar>(\<Sum>(disease, cnt)\<leftarrow>most_common (disease_counts example_dataset_thirds).
          of_nat (cents (disease_percentage cnt (length example_dataset_thirds))) / 100) - 100\<bar>
       \<le> (of_nat (length (most_common (disease_counts example_dataset_thirds)))
            * (1 / 200 + 1 / 2 ^ 45) :: rat)"
proof -
  have m: "matched_diseases ''cough'' example_dataset_thirds = example_dataset_thirds"
    by (simp add: matched_diseases_def example_dataset_thirds_def user_symptoms_list_cough
        row_matches_def row_cells_def clean_symptom_cough)
  have ne: "example_dataset_thirds \<noteq> []"
    by (simp add: example_dataset_thirds_def)
  have r: "most_common (disease_counts example_dataset_thirds)
       = [(Str ''Asthma'', 1), (Str ''Bronchitis'', 1), (Str ''Flu'', 1)]"
    by (simp add: disease_counts_def example_dataset_thirds_def Counter_def most_common_def)
  have c: "cents (disease_percentage 1 3) = 3333"
    unfolding disease_percentage_def float_mul_def int_true_div_def by code_simp
  note t = percentages_sum_to_100 [of example_dataset_thirds "''cough''" example_dataset_thirds
      "most_common (disease_counts example_dataset_thirds)", OF m [symmetric] ne refl]
  from m r c t show ?thesis by blast
qed



text \<open>
  C2, as stated: the exact-match lookups trim and lower-case both sides. They do not
  trim: the query \<^verbatim>\<open> flu\<close> (with a leading space) and the stored name \<^verbatim>\<open>Flu\<close> have the
  same normalized form, yet the disease is not found, while the query \<^verbatim>\<open>flu\<close> finds it.
\<close>

theorem normalized_comparison_counterexample:
  "clean_symptom (Str '' flu'') = clean_symptom (Str ''Flu'')
   \<and> display_disease_description '' flu''
        \<lparr>dataset = None,
         symptom_description = Some [\<lparr>sd_Disease = Str ''Flu'', sd_Description = Str ''A viral infection.''\<rparr>],
         symptom_precaution = None, Symptom_severity = None, medquad = None\<rparr>
       = Inr [''Disease ' flu' not found in the dataset.'']
   \<and> display_disease_description ''flu''
        \<lparr>dataset = None,
         symptom_description = Some [\<lparr>sd_Disease = Str ''Flu'', sd_Description = Str ''A viral infection.''\<rparr>],
         symptom_precaution = None, Symptom_severity = None, medquad = None\<rparr>
       = Inr [''Disease Description for 'Flu':'', ''A viral infection.'']"
  by (simp add: clean_symptom_sp_flu clean_symptom_Flu display_disease_description_def
      str_accessor_def isinstance_str_def str_lower_def eq_str_def py_lower_sp_flu py_lower_flu
      py_lower_Flu py_capitalize_flu quoted_def py_str_def)

text \<open>
  C2, amended. Neither side of a comparison is trimmed, and the stored side is lower-cased.

  The exact-match lookups compare the lower-cased stored key with the lower-cased query.
  On a table that was loaded, the key is found (lines other than the "not found" line are
  written) if and only if some row holds a string in the key column whose lower-case form
  is the lower-case form of the query; the "not found" line is written if and only if no
  row does and the key column is a text column (it holds a string, or the table has no
  rows).

  The substring lookups, on a table that was loaded, whose question column is a text
  column, and for a name whose pattern compiles to \<open>search\<close>, select the rows whose
  question is a string \<open>q\<close> such that \<open>search\<close> accepts the lower-cased \<open>q\<close> (the first
  containment test) and the lower-cased \<open>q\<close> contains the topic word as a substring (the
  second containment test). They write the answers of these rows, in the order of the
  table, under a heading, or the "not found" line when no row is selected. For a name
  without special characters that is in lower case, \<open>search\<close> is the test that the text
  contains the lower-cased name as a substring.
\<close>

theorem lookups_compare_lower_cased:
  "(symptom_description dataframes = Some description_df \<longrightarrow>
      ((\<exists>lines. display_disease_description disease_name dataframes = Inr lines
            \<and> lines \<noteq> [''Disease '' @ quoted disease_name @ '' not found in the dataset.''])
        = (\<exists>row\<in>set description_df. \<exists>s. sd_Disease row = Str s \<and> py_lower s = py_lower disease_name))
      \<and> ((display_disease_description disease_name dataframes
            = Inr [''Disease '' @ quoted disease_name @ '' not found in the dataset.''])
        = ((description_df = [] \<or> list_ex isinstance_str (map sd_Disease description_df))
           \<and> \<not> (\<exists>row\<in>set description_df. \<exists>s. sd_Disease row = Str s
                    \<and> py_lower s = py_lower disease_name))))
   \<and> (symptom_precaution dataframes = Some precaution_df \<longrightarrow>
      ((\<exists>lines. display_precautions disease_name dataframes = Inr lines
            \<and> lines \<noteq> [''Disease '' @ quoted disease_name @ '' not found in the dataset.''])
        = (\<exists>row\<in>set precaution_df. \<exists>s. sp_Disease row = Str s \<and> py_lower s = py_lower disease_name))
      \<and> ((display_precautions disease_name dataframes
            = Inr [''Disease '' @ quoted disease_name @ '' not found in the dataset.''])
        = ((precaution_df = [] \<or> list_ex isinstance_str (map sp_Disease precaution_df))
           \<and> \<not> (\<exists>row\<in>set precaution_df. \<exists>s. sp_Disease row = Str s
                    \<and> py_lower s = py_lower disease_name))))
   \<and> (Symptom_severity dataframes = Some severity_df \<longrightarrow>
      ((\<exists>lines. display_symptom_severity symptom_name dataframes = Inr lines
            \<and> lines \<noteq> [''Symptom '' @ quoted symptom_name @ '' not found in the dataset.''])
        = (\<exists>row\<in>set severity_df. \<exists>s. Symptom row = Str s \<and> py_lower s = py_lower symptom_name))
      \<and> ((display_symptom_severity symptom_name dataframes
            = Inr [''Symptom '' @ quoted symptom_name @ '' not found in the dataset.''])
        = ((severity_df = [] \<or> list_ex isinstance_str (map Symptom severity_df))
           \<and> \<not> (\<exists>row\<in>set severity_df. \<exists>s. Symptom row = Str s
                    \<and> py_lower s = py_lower symptom_name))))
   \<and> (medquad dataframes = Some medquad_df
      \<and> (medquad_df = [] \<or> list_ex isinstance_str (map question medquad_df))
      \<and> re_compile eng disease_name = Inr search \<longrightarrow>
      display_disease_causes eng disease_name dataframes
        = (let rows = filter (\<lambda>row. \<exists>q. question row = Str q \<and> search (py_lower q)
                                      \<and> (\<exists>pre suf. py_lower q = pre @ ''cause'' @ suf)) medquad_df
           in if rows = [] then
                Inr [''No causes found for '' @ quoted disease_name @ '' in the 'medquad' dataset.'']
              else Inr ((''Causes of '' @ py_capitalize disease_name @ '' (from 'medquad' dataset):'') #
                        map (\<lambda>row. ''- '' @ py_str (answer row)) rows))
      \<and> display_disease_diagnosis eng disease_name dataframes
        = (let rows = filter (\<lambda>row. \<exists>q. question row = Str q \<and> search (py_lower q)
                                      \<and> (\<exists>pre suf. py_lower q = pre @ ''diagnose'' @ suf)) medquad_df
           in if rows = [] then
                Inr [''No diagnosis found for '' @ quoted disease_name @ '' in the 'medquad' dataset.'']
              else Inr ((''Diagnosis of '' @ py_capitalize disease_name @ '' (from 'medquad' dataset):'') #
                        map (\<lambda>row. ''- '' @ py_str (answer row)) rows))
      \<and> display_disease_research eng disease_name dataframes
        = (let rows = filter (\<lambda>row. \<exists>q. question row = Str q \<and> search (py_lower q)
                                      \<and> (\<exists>pre suf. py_lower q = pre @ ''research'' @ suf)) medquad_df
           in if rows = [] then
                Inr [''No research information found for '' @ quoted disease_name
                       @ '' in the 'medquad' dataset.'']
              else Inr ((''Research about '' @ py_capitalize disease_name @ '' (from 'medquad' dataset):'') #
                        map (\<lambda>row. ''- '' @ py_str (answer row)) rows)))
   \<and> (\<not> list_ex re_special disease_name \<and> py_lower disease_name = disease_name \<longrightarrow>
      re_compile eng disease_name
        = Inr (\<lambda>text. \<exists>pre suf. text = pre @ py_lower disease_name @ suf))"
proof -
  have c1: "((\<exists>lines. display_disease_description disease_name dataframes = Inr lines
            \<and> lines \<noteq> [''Disease '' @ quoted disease_name @ '' not found in the dataset.''])
        = (\<exists>row\<in>set description_df. \<exists>s. sd_Disease row = Str s \<and> py_lower s = py_lower disease_name))
      \<and> ((display_disease_description disease_name dataframes
            = Inr [''Disease '' @ quoted disease_name @ '' not found in the dataset.''])
        = ((description_df = [] \<or> list_ex isinstance_str (map sd_Disease description_df))
           \<and> \<not> (\<exists>row\<in>set description_df. \<exists>s. sd_Disease row = Str s
                    \<and> py_lower s = py_lower disease_name)))"
    if "symptom_description dataframes = Some description_df"
    by (intro conjI description_found_iff [OF that] description_not_found_iff [OF that])
  have c2: "((\<exists>lines. display_precautions disease_name dataframes = Inr lines
            \<and> lines \<noteq> [''Disease '' @ quoted disease_name @ '' not found in the dataset.''])
        = (\<exists>row\<in>set precaution_df. \<exists>s. sp_Disease row = Str s \<and> py_lower s = py_lower disease_name))
      \<and> ((display_precautions disease_name dataframes
            = Inr [''Disease '' @ quoted disease_name @ '' not found in the dataset.''])
        = ((precaution_df = [] \<or> list_ex isinstance_str (map sp_Disease precaution_df))
           \<and> \<not> (\<exists>row\<in>set precaution_df. \<exists>s. sp_Disease row = Str s
                    \<and> py_lower s = py_lower disease_name)))"
    if "symptom_precaution dataframes = Some precaution_df"
    by (intro conjI precautions_found_iff [OF that] precautions_not_found_iff [OF that])
  have c3: "((\<exists>lines. display_symptom_severity symptom_name dataframes = Inr lines
            \<and> lines \<noteq> [''Symptom '' @ quoted symptom_name @ '' not found in the dataset.''])
        = (\<exists>row\<in>set severity_df. \<exists>s. Symptom row = Str s \<and> py_lower s = py_lower symptom_name))
      \<and> ((display_symptom_severity symptom_name dataframes
            = Inr [''Symptom '' @ quoted symptom_name @ '' not found in the dataset.''])
        = ((severity_df = [] \<or> list_ex isinstance_str (map Symptom severity_df))
           \<and> \<not> (\<exists>row\<in>set severity_df. \<exists>s. Symptom row = Str s
                    \<and> py_lower s = py_lower symptom_name)))"
    if "Symptom_severity dataframes = Some severity_df"
    by (intro conjI severity_found_iff [OF that] severity_not_found_iff [OF that])
  have c4: "display_disease_causes eng disease_name dataframes
        = (let rows = filter (\<lambda>row. \<exists>q. question row = Str q \<and> search (py_lower q)
                                      \<and> (\<exists>pre suf. py_lower q = pre @ ''cause'' @ suf)) medquad_df
           in if rows = [] then
                Inr [''No causes found for '' @ quoted disease_name @ '' in the 'medquad' dataset.'']
              else Inr ((''Causes of '' @ py_capitalize disease_name @ '' (from 'medquad' dataset):'') #
                        map (\<lambda>row. ''- '' @ py_str (answer row)) rows))
      \<and> display_disease_diagnosis eng disease_name dataframes
        = (let rows = filter (\<lambda>row. \<exists>q. question row = Str q \<and> search (py_lower q)
                                      \<and> (\<exists>pre suf. py_lower q = pre @ ''diagnose'' @ suf)) medquad_df
           in if rows = [] then
                Inr [''No diagnosis found for '' @ quoted disease_name @ '' in the 'medquad' dataset.'']
              else Inr ((''Diagnosis of '' @ py_capitalize disease_name @ '' (from 'medquad' dataset):'') #
                        map (\<lambda>row. ''- '' @ py_str (answer row)) rows))
      \<and> display_disease_research eng disease_name dataframes
        = (let rows = filter (\<lambda>row. \<exists>q. question row = Str q \<and> search (py_lower q)
                                      \<and> (\<exists>pre suf. py_lower q = pre @ ''research'' @ suf)) medquad_df
           in if rows = [] then
                Inr [''No research information found for '' @ quoted disease_name
                       @ '' in the 'medquad' dataset.'']
              else Inr ((''Research about '' @ py_capitalize disease_name @ '' (from 'medquad' dataset):'') #
                        map (\<lambda>row. ''- '' @ py_str (answer row)) rows))"
    if m: "medquad dataframes = Some medquad_df
      \<and> (medquad_df = [] \<or> list_ex isinstance_str (map question medquad_df))
      \<and> re_compile eng disease_name = Inr search"
  proof -
    from m have l: "medquad dataframes = Some medquad_df"
      and t: "medquad_df = [] \<or> list_ex isinstance_str (map question medquad_df)"
      and r: "re_compile eng disease_name = Inr search"
      by simp_all
    show ?thesis
      unfolding causes_outcome [OF l t r] diagnosis_outcome [OF l t r] research_outcome [OF l t r]
        medquad_matched_char
      by (intro conjI refl)
  qed
  have c5: "re_compile eng disease_name
        = Inr (\<lambda>text. \<exists>pre suf. text = pre @ py_lower disease_name @ suf)"
    if "\<not> list_ex re_special disease_name \<and> py_lower disease_name = disease_name"
    using that re_compile_literal_substring [of disease_name eng] by simp
  show ?thesis
    by (intro conjI; rule impI; (erule c1 | erule c2 | erule c3 | erule c4 | erule c5))
qed

theorem lookups_compare_lower_cased_witness:
  "display_disease_description ''FLU '' example_tables
       = Inr [''Disease 'FLU ' not found in the dataset.'']
   \<and> display_disease_description ''fLU'' example_tables
       \<noteq> Inr [''Disease 'fLU' not found in the dataset.'']
   \<and> display_precautions ''FLU '' example_tables
       = Inr [''Disease 'FLU ' not found in the dataset.'']
   \<and> display_symptom_severity ''Itching '' example_tables
       = Inr [''Symptom 'Itching ' not found in the dataset.'']
   \<and> display_disease_causes (\<lambda>pat. None) ''flu'' example_tables
       = Inr [''Causes of Flu (from 'medquad' dataset):'', ''- Influenza viruses.'']
   \<and> display_disease_diagnosis (\<lambda>pat. None) ''flu'' example_tables
       = Inr [''No diagnosis found for 'flu' in the 'medquad' dataset.'']
   \<and> re_compile (\<lambda>pat. None) ''flu'' = Inr (\<lambda>text. \<exists>pre suf. text = pre @ ''flu'' @ suf)"
proof -
  obtain description_df where d: "symptom_description example_tables = Some description_df"
    and df: "description_df =
        [\<lparr>sd_Disease = Str ''Malaria'', sd_Description = Str ''Spread by mosquitoes.''\<rparr>,
         \<lparr>sd_Disease = Str ''Flu'', sd_Description = Str ''A viral infection.''\<rparr>,
         \<lparr>sd_Disease = Str ''FLU'', sd_Description = Str ''A second entry.''\<rparr>]"
    by (simp add: example_tables_def)
  obtain precaution_df where p: "symptom_precaution example_tables = Some precaution_df"
    and pf: "precaution_df =
        [\<lparr>sp_Disease = Str ''Flu'', Precaution_1 = Str ''rest'', Precaution_2 = NaN,
           Precaution_3 = Str ''drink fluids'', Precaution_4 = NaN\<rparr>,
         \<lparr>sp_Disease = Str ''flu'', Precaution_1 = Str ''see a doctor'', Precaution_2 = NaN,
           Precaution_3 = NaN, Precaution_4 = NaN\<rparr>]"
    by (simp add: example_tables_def)
  obtain severity_df where s: "Symptom_severity example_tables = Some severity_df"
    and sf: "severity_df =
        [\<lparr>Symptom = Str ''itching'', weight = 1\<rparr>, \<lparr>Symptom = Str ''Itching'', weight = 5\<rparr>]"
    by (simp add: example_tables_def)
  obtain medquad_df where m: "medquad example_tables = Some medquad_df"
    and mf: "medquad_df =
        [\<lparr>question = Str ''What causes Flu?'', answer = Str ''Influenza viruses.''\<rparr>,
         \<lparr>question = NaN, answer = Str ''No question.''\<rparr>]"
    by (simp add: example_tables_def)
  have r: "re_compile (\<lambda>pat. None) ''flu'' = Inr (py_contains ''flu'')"
    by (simp add: re_compile_def re_special_def)
  note t = lookups_compare_lower_cased [where dataframes = example_tables
      and description_df = description_df and precaution_df = precaution_df
      and severity_df = severity_df and medquad_df = medquad_df and eng = "\<lambda>pat. None"
      and search = "py_contains ''flu''" and symptom_name = "''Itching ''"]
  note t1 = t [where disease_name = "''FLU ''"]
  note t2 = t [where disease_name = "''fLU''"]
  note t3 = t [where disease_name = "''flu''"]
  have td: "description_df = [] \<or> list_ex isinstance_str (map sd_Disease description_df)"
    by (simp add: df isinstance_str_def)
  have tp: "precaution_df = [] \<or> list_ex isinstance_str (map sp_Disease precaution_df)"
    by (simp add: pf isinstance_str_def)
  have ts: "severity_df = [] \<or> list_ex isinstance_str (map Symptom severity_df)"
    by (simp add: sf isinstance_str_def)
  have tm: "medquad_df = [] \<or> list_ex isinstance_str (map question medquad_df)"
    by (simp add: mf isinstance_str_def)
  have n1: "\<not> (\<exists>row\<in>set description_df. \<exists>s. sd_Disease row = Str s \<and> py_lower s = py_lower ''FLU '')"
    by (simp add: df py_lower_Malaria py_lower_Flu py_lower_FLU py_lower_FLU_sp)
  have n2: "\<exists>row\<in>set description_df. \<exists>s. sd_Disease row = Str s \<and> py_lower s = py_lower ''fLU''"
    by (simp add: df py_lower_Flu py_lower_fLU)
  have n3: "\<not> (\<exists>row\<in>set precaution_df. \<exists>s. sp_Disease row = Str s \<and> py_lower s = py_lower ''FLU '')"
    by (simp add: pf py_lower_Flu py_lower_flu py_lower_FLU_sp)
  have n4: "\<not> (\<exists>row\<in>set severity_df. \<exists>s. Symptom row = Str s \<and> py_lower s = py_lower ''Itching '')"
    by (simp add: sf py_lower_itching py_lower_Itching py_lower_Itching_sp)
  from t1 d td n1 have a: "display_disease_description ''FLU '' example_tables
       = Inr [''Disease '' @ quoted ''FLU '' @ '' not found in the dataset.'']"
    by blast
  from t2 d n2 have b: "display_disease_description ''fLU'' example_tables
       \<noteq> Inr [''Disease '' @ quoted ''fLU'' @ '' not found in the dataset.'']"
    by blast
  from t1 p tp n3 have c: "display_precautions ''FLU '' example_tables
       = Inr [''Disease '' @ quoted ''FLU '' @ '' not found in the dataset.'']"
    by blast
  from t1 s ts n4 have e: "display_symptom_severity ''Itching '' example_tables
       = Inr [''Symptom '' @ quoted ''Itching '' @ '' not found in the dataset.'']"
    by blast
  have h: "medquad example_tables = Some medquad_df
      \<and> (medquad_df = [] \<or> list_ex isinstance_str (map question medquad_df))
      \<and> re_compile (\<lambda>pat. None) ''flu'' = Inr (py_contains ''flu'')"
    using m tm r by simp
  note q = t3 [THEN conjunct2, THEN conjunct2, THEN conjunct2, THEN conjunct1, THEN mp, OF h,
      unfolded substring_iff_py_contains]
  have f: "display_disease_causes (\<lambda>pat. None) ''flu'' example_tables
       = Inr [''Causes of Flu (from 'medquad' dataset):'', ''- Influenza viruses.'']"
    by (simp add: q [THEN conjunct1] mf py_lower_question contains_flu contains_cause
        py_capitalize_flu py_str_def)
  have g: "display_disease_diagnosis (\<lambda>pat. None) ''flu'' example_tables
       = Inr [''No diagnosis found for 'flu' in the 'medquad' dataset.'']"
    by (simp add: q [THEN conjunct2, THEN conjunct1] mf py_lower_question contains_flu
        not_contains_diagnose quoted_def)
  have k: "\<not> list_ex re_special ''flu'' \<and> py_lower ''flu'' = ''flu''"
    by (simp add: re_special_def py_lower_flu)
  note i = t3 [THEN conjunct2, THEN conjunct2, THEN conjunct2, THEN conjunct2, THEN mp, OF k,
      unfolded py_lower_flu]
  from a b c e f g i show ?thesis by (simp add: quoted_def)
qed

end
